theory Spec2Isabelle
  imports Main "HOL-Library.Log_Nat"
begin

section \<open>Observable effects and the threaded state\<close>

text \<open>
  The server of \<^verbatim>\<open>src/Server/server.js\<close> is sequential asynchronous JavaScript: every
  \<^verbatim>\<open>await\<close> is a call into the outside world (an RPC endpoint, the attestation service,
  a timer). The model threads an explicit state through every such call. The state holds
  the outside world (of an arbitrary type, changed only by the calls themselves) and a log
  of the effects the modelled function asked for, in order.
\<close>

type_synonym address = string

text \<open>
  A configuration object as the code reads it: \<^verbatim>\<open>cfg.rpc\<close>, \<^verbatim>\<open>cfg.factory\<close>,
  \<^verbatim>\<open>cfg.label\<close>. A field that the object does not have reads as \<^verbatim>\<open>undefined\<close>
  (\<open>None\<close>).
\<close>

record chain_config =
  rpc :: "string option"
  factory :: "string option"
  label :: "string option"

text \<open>
  The two shapes of \<^verbatim>\<open>createSingleWallet\<close>: the burn factories take
  \<^verbatim>\<open>(uint32 destinationDomain, bytes32 mintRecipient)\<close>, the Avalanche transfer factory
  takes \<^verbatim>\<open>(address destination)\<close>.
\<close>

datatype create_args =
    BurnWallet nat string
  | TransferWallet string

datatype effect =
    Invoke
  | Sleep int
  | Connect chain_config
  | OwnerCall chain_config
  | Submit chain_config create_args
  | WaitReceipt string
  | QueryFilter chain_config "string option" int
  | Fetch string

record 'w st =
  world :: 'w
  effects :: "effect list"

definition emit :: "effect \<Rightarrow> 'w st \<Rightarrow> 'w st" where
  "emit e s = s\<lparr>effects := effects s @ [e]\<rparr>"

text \<open>\<^verbatim>\<open>await new Promise(r => setTimeout(r, ms))\<close>\<close>

definition sleep :: "int \<Rightarrow> 'w st \<Rightarrow> 'w st" where
  "sleep ms s = emit (Sleep ms) s"

text \<open>
  Calling into the world: the call is logged, the world answers and moves on. A thrown
  error is the left injection, a returned value the right one.
\<close>

definition perform :: "effect \<Rightarrow> ('w \<Rightarrow> 'r \<times> 'w) \<Rightarrow> 'w st \<Rightarrow> 'r \<times> 'w st" where
  "perform e f s = (case f (world s) of (r, w') \<Rightarrow> (r, \<lparr>world = w', effects = effects s @ [e]\<rparr>))"

fun sleeps :: "effect list \<Rightarrow> int list" where
  "sleeps [] = []"
| "sleeps (Sleep ms # es) = ms # sleeps es"
| "sleeps (e # es) = sleeps es"

text \<open>The answers of the first \<open>n\<close> calls of an operation, the world threaded through them.\<close>

fun outcomes :: "('w \<Rightarrow> 'r \<times> 'w) \<Rightarrow> nat \<Rightarrow> 'w \<Rightarrow> 'r list" where
  "outcomes f 0 w = []"
| "outcomes f (Suc n) w = (case f w of (r, w') \<Rightarrow> r # outcomes f n w')"

fun after :: "('w \<Rightarrow> 'r \<times> 'w) \<Rightarrow> nat \<Rightarrow> 'w \<Rightarrow> 'w" where
  "after f 0 w = w"
| "after f (Suc n) w = after f n (snd (f w))"

text \<open>A scripted world for concrete runs: the answers still to come, consumed in order.\<close>

definition scripted :: "'r \<Rightarrow> 'r list \<Rightarrow> 'r \<times> 'r list" where
  "scripted dflt w = (case w of [] \<Rightarrow> (dflt, []) | r # rs \<Rightarrow> (r, rs))"

section \<open>RetryExecutor: \<^verbatim>\<open>runWithRetries\<close>\<close>

text \<open>
  \<^verbatim>\<open>
  async function runWithRetries(action, { maxAttempts = 3, baseDelayMs = 1000 } = {}) {
    let attempt = 0;
    let lastErr;
    while (attempt < maxAttempts) {
      try {
        attempt++;
        return await action();
      } catch (err) {
        lastErr = err;
        if (attempt >= maxAttempts) break;
        const delay = baseDelayMs * attempt;
        await new Promise(r => setTimeout(r, delay));
      }
    }
    throw lastErr;
  }
  \<close>
  The thrown value is \<open>lastErr\<close>, which is \<^verbatim>\<open>undefined\<close> (\<open>None\<close>) until a failure of
  the action has been caught. The two options are integers here; each defaults when absent.
\<close>

record retry_options =
  maxAttempts :: "int option"
  baseDelayMs :: "int option"

function runWithRetries_loop ::
  "('w \<Rightarrow> ('e + 'a) \<times> 'w) \<Rightarrow> int \<Rightarrow> int \<Rightarrow> int \<Rightarrow> 'e option \<Rightarrow> 'w st \<Rightarrow> ('e option + 'a) \<times> 'w st"
where
  "runWithRetries_loop action maxA baseD attempt lastErr s =
     (if attempt < maxA then
        (case perform Invoke action s of
           (Inr v, s') \<Rightarrow> (Inr v, s')
         | (Inl err, s') \<Rightarrow>
             if attempt + 1 \<ge> maxA then (Inl (Some err), s')
             else runWithRetries_loop action maxA baseD (attempt + 1) (Some err)
                    (sleep (baseD * (attempt + 1)) s'))
      else (Inl lastErr, s))"
  by pat_completeness auto
termination
  by (relation "measure (\<lambda>(action, maxA, baseD, attempt, lastErr, s). nat (maxA - attempt))") auto

definition maxAttempts_of :: "retry_options \<Rightarrow> int" where
  "maxAttempts_of opts = (case maxAttempts opts of None \<Rightarrow> 3 | Some m \<Rightarrow> m)"

definition baseDelayMs_of :: "retry_options \<Rightarrow> int" where
  "baseDelayMs_of opts = (case baseDelayMs opts of None \<Rightarrow> 1000 | Some d \<Rightarrow> d)"

definition runWithRetries ::
  "('w \<Rightarrow> ('e + 'a) \<times> 'w) \<Rightarrow> retry_options \<Rightarrow> 'w st \<Rightarrow> ('e option + 'a) \<times> 'w st" where
  "runWithRetries action opts s =
     runWithRetries_loop action (maxAttempts_of opts) (baseDelayMs_of opts) 0 None s"

text \<open>Reading a run: a state with nothing logged yet, and the action's invocations in a log.\<close>

definition fresh :: "'w \<Rightarrow> 'w st" where
  "fresh w = \<lparr>world = w, effects = []\<rparr>"



section \<open>AttestationPoller: \<^verbatim>\<open>fetchAttestation\<close>\<close>

text \<open>
  The service answers \<^verbatim>\<open>{ messages: [{ attestation, message, status }] }\<close>. Each field is
  a string when present; \<open>None\<close> is an absent field (\<^verbatim>\<open>undefined\<close>), also for the
  \<^verbatim>\<open>messages\<close> list itself.
\<close>

record cctp_message =
  attestation :: "string option"
  message :: "string option"
  status :: "string option"

type_synonym attestation_data = "cctp_message list option"

text \<open>JavaScript truthiness of a string-or-undefined: the empty string is falsy.\<close>

definition truthy :: "string option \<Rightarrow> bool" where
  "truthy v = (case v of None \<Rightarrow> False | Some x \<Rightarrow> x \<noteq> [])"

text \<open>A number in a template literal: its decimal digits.\<close>

fun decimal :: "nat \<Rightarrow> string" where
  "decimal n = (if n < 10 then [char_of (48 + n)] else decimal (n div 10) @ [char_of (48 + n mod 10)])"

definition attestation_url :: "nat \<Rightarrow> string \<Rightarrow> string" where
  "attestation_url chainId transactionHash =
     ''https://iris-api-sandbox.circle.com/v2/messages/'' @ decimal chainId
       @ ''?transactionHash='' @ transactionHash"

text \<open>
  What one answer means to the loop body: \<^verbatim>\<open>data.messages && data.messages.length > 0\<close>,
  then \<^verbatim>\<open>message = data.messages[0]\<close> and
  \<^verbatim>\<open>message.attestation && message.status === 'complete'\<close>.
\<close>

definition ready :: "attestation_data \<Rightarrow> cctp_message option" where
  "ready data =
     (case data of
        None \<Rightarrow> None
      | Some [] \<Rightarrow> None
      | Some (m # rest) \<Rightarrow>
          if truthy (attestation m) \<and> status m = Some ''complete'' then Some m else None)"

text \<open>
  \<^verbatim>\<open>
  let attempts = 0;
  const maxAttempts = 10;
  while (attempts < maxAttempts) {
    try {
      attempts++;
      if (attempts === 1) { await sleep(10000); } else { await sleep(5000); }
      const response = await fetch(url);
      const data = await response.json();
      if (data.messages && data.messages.length > 0) {
        const message = data.messages[0];
        if (message.attestation && message.status === 'complete') {
          return { attestation: message.attestation, message: message.message,
                   status: message.status };
        }
      }
    } catch (error) {
      if (attempts >= maxAttempts) throw error;
    }
  }
  throw new Error('Failed to fetch attestation after maximum attempts');
  \<close>
  \<^verbatim>\<open>fetch\<close> followed by \<^verbatim>\<open>response.json()\<close> is one call into the world, which throws
  (an error message) or yields the decoded body.
\<close>

function fetchAttestation_loop ::
  "(string \<Rightarrow> 'w \<Rightarrow> (string + attestation_data) \<times> 'w) \<Rightarrow> string \<Rightarrow> nat \<Rightarrow> 'w st
     \<Rightarrow> (string + cctp_message) \<times> 'w st"
where
  "fetchAttestation_loop fetch url attempts s =
     (if attempts < 10 then
        (case perform (Fetch url) (fetch url)
                (sleep (if attempts + 1 = 1 then 10000 else 5000) s) of
           (Inr data, s') \<Rightarrow>
             (case ready data of
                Some m \<Rightarrow> (Inr m, s')
              | None \<Rightarrow> fetchAttestation_loop fetch url (attempts + 1) s')
         | (Inl error, s') \<Rightarrow>
             if attempts + 1 \<ge> 10 then (Inl error, s')
             else fetchAttestation_loop fetch url (attempts + 1) s')
      else (Inl ''Failed to fetch attestation after maximum attempts'', s))"
  by pat_completeness auto
termination
  by (relation "measure (\<lambda>(fetch, url, attempts, s). 10 - attempts)") auto

definition fetchAttestation ::
  "(string \<Rightarrow> 'w \<Rightarrow> (string + attestation_data) \<times> 'w) \<Rightarrow> nat \<Rightarrow> string \<Rightarrow> 'w st
     \<Rightarrow> (string + cctp_message) \<times> 'w st" where
  "fetchAttestation fetch chainId transactionHash s =
     fetchAttestation_loop fetch (attestation_url chainId transactionHash) 0 s"

text \<open>The answers of the first \<open>n\<close> polls, as the loop body reads them.\<close>

definition polls ::
  "(string \<Rightarrow> 'w \<Rightarrow> (string + attestation_data) \<times> 'w) \<Rightarrow> nat \<Rightarrow> string \<Rightarrow> nat \<Rightarrow> 'w
     \<Rightarrow> (string + attestation_data) list" where
  "polls fetch chainId transactionHash n w =
     outcomes (fetch (attestation_url chainId transactionHash)) n w"

definition is_ready :: "string + attestation_data \<Rightarrow> bool" where
  "is_ready r = (case r of Inl error \<Rightarrow> False | Inr data \<Rightarrow> ready data \<noteq> None)"

text \<open>The claim's reading of a ready answer: some entry of the list is complete.\<close>

definition complete_entry :: "cctp_message \<Rightarrow> bool" where
  "complete_entry m = (truthy (attestation m) \<and> status m = Some ''complete'')"

definition some_entry_complete :: "string + attestation_data \<Rightarrow> bool" where
  "some_entry_complete r =
     (case r of Inr (Some ms) \<Rightarrow> list_ex complete_entry ms | _ \<Rightarrow> False)"

section \<open>WalletProvisioner\<close>

subsection \<open>Strings\<close>

definition toLowerCase :: "string \<Rightarrow> string" where
  "toLowerCase str =
     map (\<lambda>c. let n = (of_char c :: nat) in if 65 \<le> n \<and> n \<le> 90 then char_of (n + 32) else c) str"

definition toUpperCase :: "string \<Rightarrow> string" where
  "toUpperCase str =
     map (\<lambda>c. let n = (of_char c :: nat) in if 97 \<le> n \<and> n \<le> 122 then char_of (n - 32) else c) str"

text \<open>\<^verbatim>\<open>str.includes(part)\<close>\<close>

fun str_includes :: "string \<Rightarrow> string \<Rightarrow> bool" where
  "str_includes [] part = (part = [])"
| "str_includes (c # cs) part = (take (length part) (c # cs) = part \<or> str_includes cs part)"

text \<open>A value in a template literal: \<^verbatim>\<open>undefined\<close> prints as the word.\<close>

definition template :: "string option \<Rightarrow> string" where
  "template v = (case v of None \<Rightarrow> ''undefined'' | Some x \<Rightarrow> x)"

text \<open>\<^verbatim>\<open>lines.join('\n')\<close>\<close>

fun join_lines :: "string list \<Rightarrow> string" where
  "join_lines [] = []"
| "join_lines [l] = l"
| "join_lines (l # ls) = l @ [CHR 0x0A] @ join_lines ls"

subsection \<open>Configuration\<close>

text \<open>
  The environment variables the configuration objects are built from; the server exits at
  start when one of them is missing, so each is a string.
\<close>

record settings =
  ARBITRUM_RPC_URL :: string
  ARBITRUM_FACTORY_ADDRESS :: string
  BASE_RPC_URL :: string
  BASE_FACTORY_ADDRESS :: string
  AVALANCHE_RPC_URL :: string
  AVALANCHE_FACTORY_ADDRESS :: string
  AVALANCHE_TRANSFER_FACTORY_ADDRESS :: string

definition DESTINATION_DOMAIN :: nat where
  "DESTINATION_DOMAIN = 1"

text \<open>
  \<^verbatim>\<open>CHAIN_CONFIGS[chainKey]\<close> reads a property of an object literal. The object has its own
  three keys, and it inherits the members of \<^verbatim>\<open>Object.prototype\<close>: for one of those names
  the read yields the inherited member (a function, or the prototype object for
  \<^verbatim>\<open>__proto__\<close>), which is truthy and has no \<^verbatim>\<open>rpc\<close>, \<^verbatim>\<open>factory\<close> or \<^verbatim>\<open>label\<close>.
\<close>

datatype 'a property = Undefined | Own 'a | Inherited

definition objectPrototypeMembers :: "string list" where
  "objectPrototypeMembers =
     [''constructor'', ''__defineGetter__'', ''__defineSetter__'', ''hasOwnProperty'',
      ''__lookupGetter__'', ''__lookupSetter__'', ''isPrototypeOf'', ''propertyIsEnumerable'',
      ''toString'', ''valueOf'', ''__proto__'', ''toLocaleString'']"

definition CHAIN_CONFIGS :: "settings \<Rightarrow> (string \<times> chain_config) list" where
  "CHAIN_CONFIGS env =
     [(''arbitrum'', \<lparr>rpc = Some (ARBITRUM_RPC_URL env), factory = Some (ARBITRUM_FACTORY_ADDRESS env),
                     label = Some ''Arbitrum Sepolia''\<rparr>),
      (''base'', \<lparr>rpc = Some (BASE_RPC_URL env), factory = Some (BASE_FACTORY_ADDRESS env),
                 label = Some ''Base Sepolia''\<rparr>),
      (''avalanche'', \<lparr>rpc = Some (AVALANCHE_RPC_URL env), factory = Some (AVALANCHE_FACTORY_ADDRESS env),
                      label = Some ''Avalanche Fuji''\<rparr>)]"

definition AVALANCHE_TRANSFER_CONFIG :: "settings \<Rightarrow> chain_config" where
  "AVALANCHE_TRANSFER_CONFIG env =
     \<lparr>rpc = Some (AVALANCHE_RPC_URL env), factory = Some (AVALANCHE_TRANSFER_FACTORY_ADDRESS env),
      label = Some ''Avalanche Fuji Transfer''\<rparr>"

definition property_of :: "(string \<times> 'a) list \<Rightarrow> string \<Rightarrow> 'a property" where
  "property_of obj key =
     (case map_of obj key of
        Some v \<Rightarrow> Own v
      | None \<Rightarrow> if key \<in> set objectPrototypeMembers then Inherited else Undefined)"

definition no_fields :: chain_config where
  "no_fields = \<lparr>rpc = None, factory = None, label = None\<rparr>"

subsection \<open>The chain, as the code reaches it\<close>

text \<open>
  A decoded receipt log: \<^verbatim>\<open>factory.interface.parseLog(log)\<close> yields the event's name and
  its \<^verbatim>\<open>args.wallet\<close>, or fails (\<open>None\<close>). A queried \<^verbatim>\<open>WalletCreated\<close> event of the transfer
  factory carries \<^verbatim>\<open>args.wallet\<close> and \<^verbatim>\<open>args.destination\<close>.
\<close>

record parsed_log =
  log_name :: string
  log_wallet :: address

type_synonym receipt_log = "parsed_log option"

record wallet_event =
  wallet :: address
  destination :: address

text \<open>
  The calls of one attempt. \<open>api_connect\<close> stands for building the provider, the signer
  and the contract binding (\<^verbatim>\<open>new ethers.JsonRpcProvider\<close>, \<^verbatim>\<open>new ethers.Wallet\<close>,
  \<^verbatim>\<open>new ethers.Contract\<close>), which may throw; the others are the awaited calls. An error is
  the thrown \<^verbatim>\<open>Error\<close>'s message. \<open>signer_address\<close> is the address of \<^verbatim>\<open>PRIVATE_KEY\<close>.
\<close>

record 'w chain_api =
  signer_address :: address
  api_connect :: "chain_config \<Rightarrow> 'w \<Rightarrow> (string + unit) \<times> 'w"
  api_owner :: "chain_config \<Rightarrow> 'w \<Rightarrow> (string + address) \<times> 'w"
  api_createSingleWallet :: "chain_config \<Rightarrow> create_args \<Rightarrow> 'w \<Rightarrow> (string + string) \<times> 'w"
  api_wait :: "string \<Rightarrow> 'w \<Rightarrow> (string + receipt_log list) \<times> 'w"
  api_queryFilter :: "chain_config \<Rightarrow> string option \<Rightarrow> int \<Rightarrow> 'w \<Rightarrow> (string + wallet_event list) \<times> 'w"
  zeroPadValue :: "string option \<Rightarrow> string + string"

definition is_WalletCreated :: "receipt_log \<Rightarrow> bool" where
  "is_WalletCreated l = (case l of None \<Rightarrow> False | Some parsed \<Rightarrow> log_name parsed = ''WalletCreated'')"

text \<open>
  The body of the \<^verbatim>\<open>try\<close> block of both creation loops, from the ownership check to the
  decoded event; the two loops differ in the arguments of \<^verbatim>\<open>createSingleWallet\<close>.
\<close>

definition create_attempt ::
  "'w chain_api \<Rightarrow> chain_config \<Rightarrow> create_args \<Rightarrow> 'w st \<Rightarrow> (string + address) \<times> 'w st" where
  "create_attempt api cfg args s =
     (case perform (Connect cfg) (api_connect api cfg) s of
        (Inl err, s1) \<Rightarrow> (Inl err, s1)
      | (Inr u, s1) \<Rightarrow>
          (case perform (OwnerCall cfg) (api_owner api cfg) s1 of
             (Inl err, s2) \<Rightarrow> (Inl err, s2)
           | (Inr owner, s2) \<Rightarrow>
               if toLowerCase owner \<noteq> toLowerCase (signer_address api)
               then (Inl ''Not factory owner'', s2)
               else
                 (case perform (Submit cfg args) (api_createSingleWallet api cfg args) s2 of
                    (Inl err, s3) \<Rightarrow> (Inl err, s3)
                  | (Inr tx, s3) \<Rightarrow>
                      (case perform (WaitReceipt tx) (api_wait api tx) s3 of
                         (Inl err, s4) \<Rightarrow> (Inl err, s4)
                       | (Inr logs, s4) \<Rightarrow>
                           (case find is_WalletCreated logs of
                              Some (Some parsed) \<Rightarrow> (Inr (log_wallet parsed), s4)
                            | _ \<Rightarrow> (Inl ''Wallet creation failed - no event found'', s4))))))"

subsection \<open>Burn-wallet creation: \<^verbatim>\<open>createWalletOnChain\<close>\<close>

text \<open>
  \<^verbatim>\<open>
  const cfg = CHAIN_CONFIGS[chainKey];
  if (!cfg) { throw new Error(`Unsupported chain ${chainKey}. Use eth, base, avalanche.`); }
  let attempts = 0;
  const maxAttempts = 6;
  while (attempts < maxAttempts) {
    try {
      attempts++;
      ... owner check, createSingleWallet(DESTINATION_DOMAIN, mintRecipient), wait, decode ...
      return walletAddress;
    } catch (err) {
      // Retry on ANY error type
      if (attempts >= maxAttempts) throw err;
      const backoffMs = 1500 * attempts;
      await new Promise(r => setTimeout(r, backoffMs));
    }
  }
  \<close>
  A loop left at its head returns \<^verbatim>\<open>undefined\<close> (\<open>Inr None\<close>).
\<close>

function createWalletOnChain_loop ::
  "'w chain_api \<Rightarrow> chain_config \<Rightarrow> string \<Rightarrow> nat \<Rightarrow> 'w st \<Rightarrow> (string + address option) \<times> 'w st"
where
  "createWalletOnChain_loop api cfg mintRecipient attempts s =
     (if attempts < 6 then
        (case create_attempt api cfg (BurnWallet DESTINATION_DOMAIN mintRecipient) s of
           (Inr walletAddress, s') \<Rightarrow> (Inr (Some walletAddress), s')
         | (Inl err, s') \<Rightarrow>
             if attempts + 1 \<ge> 6 then (Inl err, s')
             else createWalletOnChain_loop api cfg mintRecipient (attempts + 1)
                    (sleep (1500 * int (attempts + 1)) s'))
      else (Inr None, s))"
  by pat_completeness auto
termination
  by (relation "measure (\<lambda>(api, cfg, mintRecipient, attempts, s). 6 - attempts)") auto

definition unsupported_chain :: "string \<Rightarrow> string" where
  "unsupported_chain chainKey = ''Unsupported chain '' @ chainKey @ ''. Use eth, base, avalanche.''"

definition createWalletOnChain ::
  "'w chain_api \<Rightarrow> settings \<Rightarrow> string \<Rightarrow> string \<Rightarrow> 'w st \<Rightarrow> (string + address option) \<times> 'w st" where
  "createWalletOnChain api env chainKey mintRecipient s =
     (case property_of (CHAIN_CONFIGS env) chainKey of
        Undefined \<Rightarrow> (Inl (unsupported_chain chainKey), s)
      | Own cfg \<Rightarrow> createWalletOnChain_loop api cfg mintRecipient 0 s
      | Inherited \<Rightarrow> createWalletOnChain_loop api no_fields mintRecipient 0 s)"

subsection \<open>Transfer-wallet creation: \<^verbatim>\<open>createAvalancheTransferWallet\<close>\<close>

text \<open>
  The event lookup, which the function has twice: before the loop with
  \<^verbatim>\<open>factory.filters.WalletCreated(null, destinationAddress)\<close> and \<^verbatim>\<open>-50\<close>, and in the
  "already known" branch with \<^verbatim>\<open>factory.filters.WalletCreated()\<close> and \<^verbatim>\<open>-20\<close>.
  \<^verbatim>\<open>
  try {
    const provider = ...; const factory = ...;
    const events = await factory.queryFilter(filter, fromBlock);
    if (events.length > 0) {
      const latestEvent = events[events.length - 1];
      return latestEvent.args.wallet;
    }
  } catch (e) { console.log(...); }
  \<close>
  \<open>None\<close> is "no return": the function goes on after the block. The block builds a
  provider and a read-only contract binding, which is the call \<open>api_connect\<close> here as well.
\<close>

definition recent_wallet ::
  "'w chain_api \<Rightarrow> chain_config \<Rightarrow> string option \<Rightarrow> int \<Rightarrow> 'w st \<Rightarrow> address option \<times> 'w st" where
  "recent_wallet api cfg dest fromBlock s =
     (case perform (Connect cfg) (api_connect api cfg) s of
        (Inl e, s1) \<Rightarrow> (None, s1)
      | (Inr u, s1) \<Rightarrow>
          (case perform (QueryFilter cfg dest fromBlock) (api_queryFilter api cfg dest fromBlock) s1 of
             (Inl e, s2) \<Rightarrow> (None, s2)
           | (Inr events, s2) \<Rightarrow>
               if length events > 0 then (Some (wallet (last events)), s2) else (None, s2)))"

text \<open>
  \<^verbatim>\<open>
  let attempts = 0;
  const maxAttempts = 3;
  while (attempts < maxAttempts) {
    try {
      attempts++;
      ... owner check, createSingleWallet(destinationAddress), wait, decode ...
      return walletAddress;
    } catch (err) {
      if (err.message.includes("already known")) {
        await new Promise(r => setTimeout(r, 10000));
        ... the event lookup, unfiltered, last 20 blocks ...
      }
      if (attempts >= maxAttempts) throw err;
      const backoffMs = 3000 * attempts;
      await new Promise(r => setTimeout(r, backoffMs));
    }
  }
  \<close>
\<close>

function createAvalancheTransferWallet_loop ::
  "'w chain_api \<Rightarrow> chain_config \<Rightarrow> string \<Rightarrow> nat \<Rightarrow> 'w st \<Rightarrow> (string + address option) \<times> 'w st"
where
  "createAvalancheTransferWallet_loop api cfg destinationAddress attempts s =
     (if attempts < 3 then
        (case create_attempt api cfg (TransferWallet destinationAddress) s of
           (Inr walletAddress, s') \<Rightarrow> (Inr (Some walletAddress), s')
         | (Inl err, s') \<Rightarrow>
             (case (if str_includes err ''already known''
                    then recent_wallet api cfg None (- 20) (sleep 10000 s')
                    else (None, s')) of
                (Some walletAddress, s'') \<Rightarrow> (Inr (Some walletAddress), s'')
              | (None, s'') \<Rightarrow>
                  if attempts + 1 \<ge> 3 then (Inl err, s'')
                  else createAvalancheTransferWallet_loop api cfg destinationAddress (attempts + 1)
                         (sleep (3000 * int (attempts + 1)) s'')))
      else (Inr None, s))"
  by pat_completeness auto
termination
  by (relation "measure (\<lambda>(api, cfg, destinationAddress, attempts, s). 3 - attempts)") auto

definition createAvalancheTransferWallet ::
  "'w chain_api \<Rightarrow> settings \<Rightarrow> string \<Rightarrow> 'w st \<Rightarrow> (string + address option) \<times> 'w st" where
  "createAvalancheTransferWallet api env destinationAddress s =
     (case recent_wallet api (AVALANCHE_TRANSFER_CONFIG env) (Some destinationAddress) (- 50) s of
        (Some walletAddress, s') \<Rightarrow> (Inr (Some walletAddress), s')
      | (None, s') \<Rightarrow>
          createAvalancheTransferWallet_loop api (AVALANCHE_TRANSFER_CONFIG env) destinationAddress 0 s')"

subsection \<open>Batch provisioning: \<^verbatim>\<open>POST /api/create-wallet-all\<close>\<close>

text \<open>
  What the handler answers: \<^verbatim>\<open>res.status(n).json({ error: msg })\<close>, or the plain text of
  \<^verbatim>\<open>res.send(lines.join('\n'))\<close>.
\<close>

datatype response = Json nat string | Text string

text \<open>
  \<^verbatim>\<open>
  for (const chain of ["arbitrum", "base"]) {
    try {
      const addr = await createWalletOnChain(chain, avalancheBytes32);
      lines.push(`${chain.toUpperCase()}: ${addr}`);
    } catch (e) {
      // Continue with other chains even if one fails
    }
  }
  \<close>
\<close>

fun burn_wallets ::
  "'w chain_api \<Rightarrow> settings \<Rightarrow> string \<Rightarrow> string list \<Rightarrow> string list \<Rightarrow> 'w st \<Rightarrow> string list \<times> 'w st"
where
  "burn_wallets api env avalancheBytes32 [] lines s = (lines, s)"
| "burn_wallets api env avalancheBytes32 (chain # others) lines s =
     (case createWalletOnChain api env chain avalancheBytes32 s of
        (Inr addr, s') \<Rightarrow>
          burn_wallets api env avalancheBytes32 others
            (lines @ [toUpperCase chain @ '': '' @ template addr]) s'
      | (Inl e, s') \<Rightarrow> burn_wallets api env avalancheBytes32 others lines s')"

text \<open>
  \<^verbatim>\<open>
  try {
    const { avalancheDestination } = req.body;
    if (!avalancheDestination) return res.status(400).json({ error: ... });
    const lines = [];
    let avalancheAddress;
    try {
      avalancheAddress = await createAvalancheTransferWallet(avalancheDestination);
      lines.push(`AVALANCHE: ${avalancheAddress}`);
    } catch (e) {
      return res.status(500).json({ error: 'Failed to create Avalanche transfer wallet' });
    }
    const avalancheBytes32 = ethers.zeroPadValue(avalancheAddress, 32);
    for (...) { ... }
    res.set('Content-Type', 'text/plain');
    res.send(lines.join('\n'));
  } catch (error) {
    res.status(500).json({ error: error.message || 'Internal error' });
  }
  \<close>
\<close>

definition create_wallet_all ::
  "'w chain_api \<Rightarrow> settings \<Rightarrow> string option \<Rightarrow> 'w st \<Rightarrow> response \<times> 'w st" where
  "create_wallet_all api env avalancheDestination s =
     (case avalancheDestination of
        None \<Rightarrow> (Json 400 ''avalancheDestination is required (address)'', s)
      | Some dest \<Rightarrow>
          if dest = [] then (Json 400 ''avalancheDestination is required (address)'', s)
          else
            (case createAvalancheTransferWallet api env dest s of
               (Inl e, s1) \<Rightarrow> (Json 500 ''Failed to create Avalanche transfer wallet'', s1)
             | (Inr avalancheAddress, s1) \<Rightarrow>
                 (case zeroPadValue api avalancheAddress of
                    Inl error \<Rightarrow> (Json 500 (if error = [] then ''Internal error'' else error), s1)
                  | Inr avalancheBytes32 \<Rightarrow>
                      (case burn_wallets api env avalancheBytes32 [''arbitrum'', ''base'']
                              [''AVALANCHE: '' @ template avalancheAddress] s1 of
                         (lines, s2) \<Rightarrow> (Text (join_lines lines), s2)))))"

section \<open>Amount conversion at the boundary\<close>

subsection \<open>JavaScript numbers\<close>

text \<open>
  A Number is an IEEE 754 binary64 value: not-a-number, an infinity (\<open>True\<close> for the
  negative one), or a finite value, kept as the rational it denotes. The sign of zero is not
  kept; no branch of the code below can tell the two zeros apart.
\<close>

datatype number = NaN | Infinity bool | Finite rat

definition pow2 :: "int \<Rightarrow> rat" where
  "pow2 e = (if 0 \<le> e then 2 ^ nat e else 1 / 2 ^ nat (- e))"

definition pow10 :: "int \<Rightarrow> rat" where
  "pow10 e = (if 0 \<le> e then 10 ^ nat e else 1 / 10 ^ nat (- e))"

text \<open>
  \<open>ilog2 x\<close> is the integer part of the binary logarithm of a positive rational (lemma
  \<open>ilog2_bounds\<close>), from the bit lengths of its numerator and denominator.
\<close>

definition ilog2 :: "rat \<Rightarrow> int" where
  "ilog2 x =
     (case quotient_of x of (p, q) \<Rightarrow>
        let d = bitlen p - bitlen q
        in if pow2 d \<le> x then d else d - 1)"

definition round_half_even :: "rat \<Rightarrow> int" where
  "round_half_even y =
     (let f = \<lfloor>y\<rfloor>; r = y - of_int f
      in if r < 1 / 2 then f else if 1 / 2 < r then f + 1 else if even f then f else f + 1)"

text \<open>
  Rounding a real to the nearest Number, ties to the even mantissa. The exponent of the
  last mantissa bit is \<open>ilog2 a - 52\<close>, and at least \<open>-1074\<close> (the subnormal range); a result
  beyond the largest finite Number \<open>(2^53 - 1) * 2^971\<close> is an infinity.
\<close>

definition to_double :: "rat \<Rightarrow> number" where
  "to_double x =
     (if x = 0 then Finite 0
      else
        let a = \<bar>x\<bar>;
            e = max (ilog2 a - 52) (- 1074);
            m = round_half_even (a / pow2 e)
        in if 971 < e \<or> (e = 971 \<and> 2 ^ 53 \<le> m) then Infinity (x < 0)
           else Finite (if x < 0 then - (of_int m * pow2 e) else of_int m * pow2 e))"

text \<open>
  The operator \<^verbatim>\<open>*\<close>: the exact product, rounded.
\<close>

fun times_number :: "number \<Rightarrow> number \<Rightarrow> number" where
  "times_number (Finite a) (Finite b) = to_double (a * b)"
| "times_number NaN y = NaN"
| "times_number x NaN = NaN"
| "times_number (Infinity s) (Infinity t) = Infinity (s \<noteq> t)"
| "times_number (Infinity s) (Finite b) = (if b = 0 then NaN else Infinity (s \<noteq> (b < 0)))"
| "times_number (Finite a) (Infinity t) = (if a = 0 then NaN else Infinity ((a < 0) \<noteq> t))"

text \<open>
  \<^verbatim>\<open>Math.floor\<close>, and \<^verbatim>\<open>BigInt(number)\<close>, which throws a RangeError unless the Number is an
  integer, and \<^verbatim>\<open>BigInt(string)\<close> further down, which throws a SyntaxError unless the
  trimmed string is empty or an integer literal.
\<close>

definition Math_floor :: "number \<Rightarrow> number" where
  "Math_floor x = (case x of Finite a \<Rightarrow> Finite (of_int \<lfloor>a\<rfloor>) | other \<Rightarrow> other)"

datatype js_error = RangeError | SyntaxError

definition BigInt_of_number :: "number \<Rightarrow> js_error + int" where
  "BigInt_of_number x =
     (case x of Finite a \<Rightarrow> if of_int \<lfloor>a\<rfloor> = a then Inr \<lfloor>a\<rfloor> else Inl RangeError
              | other \<Rightarrow> Inl RangeError)"

text \<open>
  Strings are read as sequences of code units below 256.
\<close>

definition is_digit :: "char \<Rightarrow> bool" where
  "is_digit c = (48 \<le> (of_char c :: int) \<and> (of_char c :: int) \<le> 57)"

definition is_space :: "char \<Rightarrow> bool" where
  "is_space c = ((of_char c :: int) \<in> {9, 10, 11, 12, 13, 32, 160})"

definition int_of_digits :: "string \<Rightarrow> int" where
  "int_of_digits ds = foldl (\<lambda>n c. 10 * n + (of_char c - 48)) 0 ds"

definition signed :: "string \<Rightarrow> bool \<times> string" where
  "signed t =
     (case t of
        [] \<Rightarrow> (False, [])
      | c # cs \<Rightarrow> if c = CHR ''-'' then (True, cs) else if c = CHR ''+'' then (False, cs) else (False, t))"

text \<open>
  \<^verbatim>\<open>parseFloat\<close> skips leading white space and reads the longest prefix that is a decimal
  literal: an optional sign, then \<^verbatim>\<open>Infinity\<close>, or digits with an optional fraction and an
  optional exponent (an exponent counts only with a digit in it). Without any digit the
  result is not-a-number. Input after the prefix is ignored. The literal's value is rounded
  to the nearest Number.
\<close>

definition exponent_part :: "string \<Rightarrow> int" where
  "exponent_part r =
     (case r of
        [] \<Rightarrow> 0
      | c # cs \<Rightarrow>
          if c = CHR ''e'' \<or> c = CHR ''E'' then
            (case signed cs of (neg, u) \<Rightarrow>
               let ds = takeWhile is_digit u
               in if ds = [] then 0 else if neg then - int_of_digits ds else int_of_digits ds)
          else 0)"

definition parseFloat :: "string \<Rightarrow> number" where
  "parseFloat str =
     (case signed (dropWhile is_space str) of (neg, u) \<Rightarrow>
        if take 8 u = ''Infinity'' then Infinity neg
        else
          let ds1 = takeWhile is_digit u; r1 = dropWhile is_digit u;
              ds2 = (case r1 of c # cs \<Rightarrow> if c = CHR ''.'' then takeWhile is_digit cs else [] | [] \<Rightarrow> []);
              r2 = (case r1 of c # cs \<Rightarrow> if c = CHR ''.'' then dropWhile is_digit cs else r1 | [] \<Rightarrow> [])
          in if ds1 = [] \<and> ds2 = [] then NaN
             else
               let mv = of_int (int_of_digits (ds1 @ ds2)) * pow10 (exponent_part r2 - int (length ds2))
               in to_double (if neg then - mv else mv))"

definition trim :: "string \<Rightarrow> string" where
  "trim str = rev (dropWhile is_space (rev (dropWhile is_space str)))"

definition digit_in_base :: "int \<Rightarrow> char \<Rightarrow> int option" where
  "digit_in_base b c =
     (let n = (of_char c :: int);
          d = (if 48 \<le> n \<and> n \<le> 57 then n - 48
               else if 97 \<le> n \<and> n \<le> 102 then n - 87
               else if 65 \<le> n \<and> n \<le> 70 then n - 55
               else b)
      in if d < b then Some d else None)"

fun digits_in_base :: "int \<Rightarrow> int \<Rightarrow> string \<Rightarrow> int option" where
  "digits_in_base b acc [] = Some acc"
| "digits_in_base b acc (c # cs) =
     (case digit_in_base b c of None \<Rightarrow> None | Some d \<Rightarrow> digits_in_base b (b * acc + d) cs)"

definition integer_literal :: "int \<Rightarrow> string \<Rightarrow> js_error + int" where
  "integer_literal b ds =
     (if ds = [] then Inl SyntaxError
      else case digits_in_base b 0 ds of None \<Rightarrow> Inl SyntaxError | Some n \<Rightarrow> Inr n)"

definition BigInt_of_string :: "string \<Rightarrow> js_error + int" where
  "BigInt_of_string str =
     (let t = trim str
      in if t = [] then Inr 0
         else if take 2 t = ''0x'' \<or> take 2 t = ''0X'' then integer_literal 16 (drop 2 t)
         else if take 2 t = ''0o'' \<or> take 2 t = ''0O'' then integer_literal 8 (drop 2 t)
         else if take 2 t = ''0b'' \<or> take 2 t = ''0B'' then integer_literal 2 (drop 2 t)
         else
           (case signed t of (neg, u) \<Rightarrow>
              (case integer_literal 10 u of
                 Inl err \<Rightarrow> Inl err
               | Inr n \<Rightarrow> Inr (if neg then - n else n))))"

text \<open>
  \<^verbatim>\<open>isNaN(x)\<close> and \<^verbatim>\<open>x <= 0\<close>.
\<close>

definition isNaN :: "number \<Rightarrow> bool" where
  "isNaN x = (x = NaN)"

definition le_zero :: "number \<Rightarrow> bool" where
  "le_zero x = (case x of NaN \<Rightarrow> False | Infinity neg \<Rightarrow> neg | Finite a \<Rightarrow> a \<le> 0)"

subsection \<open>The two handlers\<close>

text \<open>
  \<^verbatim>\<open>POST /api/transfer-usdc\<close>, "Validate and convert amount": \<open>Inl\<close> is the message of the
  400 answer, \<open>Inr\<close> the value of \<^verbatim>\<open>amountBigInt\<close> the transfer goes on with.
  \<^verbatim>\<open>
  try {
    if (amount.includes('.')) {
      const decimalAmount = parseFloat(amount);
      if (isNaN(decimalAmount) || decimalAmount <= 0) { return res.status(400).json(...); }
      amountBigInt = BigInt(Math.floor(decimalAmount * 1000000));
    } else {
      amountBigInt = BigInt(amount);
      if (amountBigInt <= 0) { return res.status(400).json({ error: 'Amount must be greater than 0' }); }
    }
  } catch (error) { return res.status(400).json(...); }
  \<close>
  \<^verbatim>\<open>POST /api/test-burn\<close> converts in the same way without the checks; what it throws
  reaches the handler's own catch block.
\<close>

definition invalid_amount :: string where
  "invalid_amount = ''Invalid amount format. Use decimal (e.g., 0.001) or wei (e.g., 1000)''"

definition transfer_amount :: "string \<Rightarrow> string + int" where
  "transfer_amount amount =
     (if str_includes amount ''.'' then
        (let decimalAmount = parseFloat amount
         in if isNaN decimalAmount \<or> le_zero decimalAmount then Inl invalid_amount
            else
              (case BigInt_of_number (Math_floor (times_number decimalAmount (Finite 1000000))) of
                 Inl err \<Rightarrow> Inl invalid_amount
               | Inr amountBigInt \<Rightarrow> Inr amountBigInt))
      else
        (case BigInt_of_string amount of
           Inl err \<Rightarrow> Inl invalid_amount
         | Inr amountBigInt \<Rightarrow>
             if amountBigInt \<le> 0 then Inl ''Amount must be greater than 0'' else Inr amountBigInt))"

definition test_burn_amount :: "string \<Rightarrow> js_error + int" where
  "test_burn_amount amount =
     (if str_includes amount ''.'' then
        BigInt_of_number (Math_floor (times_number (parseFloat amount) (Finite 1000000)))
      else BigInt_of_string amount)"

text \<open>
  The claim's reading of the conversion, for a string \<^verbatim>\<open>D.F\<close> of digits: the rational
  \<open>D.F\<close>, times \<open>10^6\<close>, truncated.
\<close>

definition decimal_value :: "string \<Rightarrow> rat" where
  "decimal_value str =
     (let D = takeWhile (\<lambda>c. c \<noteq> CHR ''.'') str;
          F = drop 1 (dropWhile (\<lambda>c. c \<noteq> CHR ''.'') str)
      in of_int (int_of_digits (D @ F)) / 10 ^ length F)"

definition exact_units :: "string \<Rightarrow> int" where
  "exact_units str = \<lfloor>decimal_value str * 1000000\<rfloor>"

section \<open>Vocabulary for runs, and concrete worlds\<close>

text \<open>
  Reading a run of the poller: the log of \<open>n\<close> polls that start after \<open>attempts\<close> earlier ones
  (each the wait, then the request), and the error raised when the last poll was not ready.
\<close>

fun poll_log :: "string \<Rightarrow> nat \<Rightarrow> nat \<Rightarrow> effect list" where
  "poll_log url attempts 0 = []"
| "poll_log url attempts (Suc n) =
     Sleep (if attempts + 1 = 1 then 10000 else 5000) # Fetch url # poll_log url (attempts + 1) n"

definition last_error :: "string + attestation_data \<Rightarrow> string" where
  "last_error r =
     (case r of Inl error \<Rightarrow> error | Inr data \<Rightarrow> ''Failed to fetch attestation after maximum attempts'')"

text \<open>
  Concrete answers of the service. While an attestation is pending the service reports the
  placeholder \<^verbatim>\<open>PENDING\<close> as the attestation, which is truthy.
\<close>

definition pending_message :: cctp_message where
  "pending_message =
     \<lparr>attestation = Some ''PENDING'', message = Some ''0x00'',
      status = Some ''pending_confirmations''\<rparr>"

definition complete_message :: cctp_message where
  "complete_message =
     \<lparr>attestation = Some ''0xa77e57'', message = Some ''0x00'', status = Some ''complete''\<rparr>"

definition scripted_fetch ::
  "string \<Rightarrow> (string + attestation_data) list
     \<Rightarrow> (string + attestation_data) \<times> (string + attestation_data) list" where
  "scripted_fetch url = scripted (Inr None)"

text \<open>Reading a run of a creation loop: the creation transactions it submitted.\<close>

fun is_submit :: "effect \<Rightarrow> bool" where
  "is_submit (Submit cfg args) = True"
| "is_submit e = False"

definition submissions :: "effect list \<Rightarrow> nat" where
  "submissions es = length (filter is_submit es)"





subsection \<open>A small chain for concrete runs\<close>

text \<open>
  A deterministic stand-in for the network, for concrete runs. Its state keeps the events
  the factories have emitted (each with its factory) and the faults still to come for
  submissions and for receipt waits; the RPC endpoints in \<open>down\<close> are unreachable. A
  submission that is accepted is mined at once: as \<^verbatim>\<open>_createWallet\<close> of the factory
  contract does, it deploys a wallet (its address numbered after the events so far) and
  emits \<^verbatim>\<open>WalletCreated(walletAddress, destination)\<close>. A fault makes the call throw; a
  fault of a receipt wait leaves the transaction mined. The owner of every factory is
  \<^verbatim>\<open>0xOperator\<close>.
\<close>

record sim =
  sim_events :: "(string option \<times> wallet_event) list"
  submit_faults :: "string option list"
  wait_faults :: "string option list"

definition sim_connect :: "string list \<Rightarrow> chain_config \<Rightarrow> sim \<Rightarrow> (string + unit) \<times> sim" where
  "sim_connect down cfg w =
     (case rpc cfg of
        None \<Rightarrow> (Inl ''invalid value for Contract target'', w)
      | Some url \<Rightarrow> if url \<in> set down then (Inl ''failed to detect network'', w) else (Inr (), w))"

definition sim_owner :: "chain_config \<Rightarrow> sim \<Rightarrow> (string + address) \<times> sim" where
  "sim_owner cfg w = (Inr ''0xOperator'', w)"

definition sim_createSingleWallet :: "chain_config \<Rightarrow> create_args \<Rightarrow> sim \<Rightarrow> (string + string) \<times> sim" where
  "sim_createSingleWallet cfg args w =
     (case submit_faults w of
        Some err # faults \<Rightarrow> (Inl err, w\<lparr>submit_faults := faults\<rparr>)
      | faults \<Rightarrow>
          (let addr = ''0xW'' @ decimal (Suc (length (sim_events w)));
               dest = (case args of BurnWallet domain mintRecipient \<Rightarrow> mintRecipient
                                  | TransferWallet d \<Rightarrow> d)
           in (Inr addr,
               w\<lparr>sim_events := sim_events w @ [(factory cfg, \<lparr>wallet = addr, destination = dest\<rparr>)],
                 submit_faults := tl faults\<rparr>)))"

definition sim_wait :: "string \<Rightarrow> sim \<Rightarrow> (string + receipt_log list) \<times> sim" where
  "sim_wait tx w =
     (case wait_faults w of
        Some err # faults \<Rightarrow> (Inl err, w\<lparr>wait_faults := faults\<rparr>)
      | faults \<Rightarrow>
          (Inr [None, Some \<lparr>log_name = ''WalletCreated'', log_wallet = tx\<rparr>],
           w\<lparr>wait_faults := tl faults\<rparr>))"

definition sim_queryFilter ::
  "chain_config \<Rightarrow> string option \<Rightarrow> int \<Rightarrow> sim \<Rightarrow> (string + wallet_event list) \<times> sim" where
  "sim_queryFilter cfg dest fromBlock w =
     (Inr (filter (\<lambda>ev. case dest of None \<Rightarrow> True | Some d \<Rightarrow> destination ev = d)
             (map snd (filter (\<lambda>fe. fst fe = factory cfg) (sim_events w)))), w)"

definition sim_zeroPadValue :: "string option \<Rightarrow> string + string" where
  "sim_zeroPadValue v =
     (case v of
        None \<Rightarrow> Inl ''invalid BytesLike value''
      | Some a \<Rightarrow> Inr (''0x000000000000000000000000'' @ drop 2 a))"

definition sim_api :: "address \<Rightarrow> string list \<Rightarrow> sim chain_api" where
  "sim_api signer down =
     \<lparr>signer_address = signer, api_connect = sim_connect down, api_owner = sim_owner,
      api_createSingleWallet = sim_createSingleWallet, api_wait = sim_wait,
      api_queryFilter = sim_queryFilter, zeroPadValue = sim_zeroPadValue\<rparr>"

definition quiet :: sim where
  "quiet = \<lparr>sim_events = [], submit_faults = [], wait_faults = []\<rparr>"

definition testnet :: settings where
  "testnet =
     \<lparr>ARBITRUM_RPC_URL = ''https://arb.example'', ARBITRUM_FACTORY_ADDRESS = ''0xFa'',
      BASE_RPC_URL = ''https://base.example'', BASE_FACTORY_ADDRESS = ''0xFb'',
      AVALANCHE_RPC_URL = ''https://avax.example'', AVALANCHE_FACTORY_ADDRESS = ''0xFc'',
      AVALANCHE_TRANSFER_FACTORY_ADDRESS = ''0xFt''\<rparr>"

text \<open>
  Concrete situations on the small chain: a chain that holds a wallet created for Bob and
  answers the next submission with "already known"; the operator's client; two calls for
  Alice, the first of which loses its first receipt wait to a timeout; two calls for Alice
  with a creation by someone else in between (the factory's \<^verbatim>\<open>createSingleWallet\<close> is
  public); and a batch with one endpoint down.
\<close>

definition bobs_chain :: sim where
  "bobs_chain = \<lparr>sim_events = [(Some ''0xFt'', \<lparr>wallet = ''0xWalletOfBob'', destination = ''0xBob''\<rparr>)],
                 submit_faults = [Some ''nonce too low: already known''], wait_faults = []\<rparr>"

definition operator :: "sim chain_api" where
  "operator = sim_api ''0xoperator'' []"

definition retried_first_call :: "(string + address option) \<times> sim st" where
  "retried_first_call =
     createAvalancheTransferWallet operator testnet ''0xAlice''
       (fresh (quiet\<lparr>wait_faults := [Some ''timeout'']\<rparr>))"

definition retried_second_call :: "(string + address option) \<times> sim st" where
  "retried_second_call =
     createAvalancheTransferWallet operator testnet ''0xAlice'' (snd retried_first_call)"

definition quiet_first_call :: "(string + address option) \<times> sim st" where
  "quiet_first_call = createAvalancheTransferWallet operator testnet ''0xAlice'' (fresh quiet)"

definition third_party_creation :: "sim st \<Rightarrow> sim st" where
  "third_party_creation s =
     s\<lparr>world := snd (sim_createSingleWallet (AVALANCHE_TRANSFER_CONFIG testnet)
                      (TransferWallet ''0xAlice'') (world s))\<rparr>"

definition quiet_second_call :: "(string + address option) \<times> sim st" where
  "quiet_second_call =
     createAvalancheTransferWallet operator testnet ''0xAlice'' (third_party_creation (snd quiet_first_call))"

text \<open>The line the batch handler pushes for a chain, none when the creation threw.\<close>

definition wallet_line :: "string \<Rightarrow> string + address option \<Rightarrow> string list" where
  "wallet_line chain r =
     (case r of Inl e \<Rightarrow> [] | Inr addr \<Rightarrow> [toUpperCase chain @ '': '' @ template addr])"

definition arbitrum_down :: "sim chain_api" where
  "arbitrum_down = sim_api ''0xoperator'' [''https://arb.example'']"

definition avalanche_down :: "sim chain_api" where
  "avalanche_down = sim_api ''0xoperator'' [''https://avax.example'']"

definition batch_transfer :: "(string + address option) \<times> sim st" where
  "batch_transfer = createAvalancheTransferWallet arbitrum_down testnet ''0xAlice'' (fresh quiet)"

definition batch_arbitrum :: "(string + address option) \<times> sim st" where
  "batch_arbitrum =
     createWalletOnChain arbitrum_down testnet ''arbitrum'' ''0x000000000000000000000000W1'' (snd batch_transfer)"

definition batch_base :: "(string + address option) \<times> sim st" where
  "batch_base =
     createWalletOnChain arbitrum_down testnet ''base'' ''0x000000000000000000000000W1'' (snd batch_arbitrum)"

definition failed_transfer :: "(string + address option) \<times> sim st" where
  "failed_transfer = createAvalancheTransferWallet avalanche_down testnet ''0xAlice'' (fresh quiet)"

section \<open>Properties of the retry wrapper\<close>

declare runWithRetries_loop.simps [simp del]








lemma loop_exhausted:
  "\<not> attempt < maxA \<Longrightarrow> runWithRetries_loop action maxA baseD attempt lastErr s = (Inl lastErr, s)"
  by (subst runWithRetries_loop.simps) simp







lemma outcomes_length: "length (outcomes f n w) = n"
  by (induction n arbitrary: w) (simp_all split: prod.split)




text \<open>
  Claim C10. With \<open>maxAttempts \<le> 0\<close> the loop is never entered: the action is not invoked,
  nothing is slept, the state is untouched, and what is thrown is \<open>lastErr\<close> as declared,
  \<^verbatim>\<open>undefined\<close>.
\<close>

theorem runWithRetries_nonpositive:
  "maxAttempts_of opts \<le> 0 \<Longrightarrow> runWithRetries action opts s = (Inl None, s)"
  unfolding runWithRetries_def by (simp add: loop_exhausted)

theorem runWithRetries_nonpositive_witness:
  "runWithRetries (scripted (Inr (0::nat))) \<lparr>maxAttempts = Some (- 2), baseDelayMs = Some 1000\<rparr>
      (fresh [Inr 7 :: string + nat]) = (Inl None, fresh [Inr 7])"
  by (rule runWithRetries_nonpositive) (simp add: maxAttempts_of_def)


section \<open>Properties of the attestation poller\<close>

declare fetchAttestation_loop.simps [simp del]

lemma fetch_loop_ready:
  "attempts < 10 \<Longrightarrow> fetch url (world s) = (Inr data, w') \<Longrightarrow> ready data = Some m \<Longrightarrow>
   fetchAttestation_loop fetch url attempts s =
     (Inr m, \<lparr>world = w', effects = effects s @ poll_log url attempts 1\<rparr>)"
  by (subst fetchAttestation_loop.simps) (simp add: perform_def sleep_def emit_def)

lemma fetch_loop_not_ready:
  "attempts < 10 \<Longrightarrow> fetch url (world s) = (r, w') \<Longrightarrow> \<not> is_ready r \<Longrightarrow> attempts + 1 < 10 \<Longrightarrow>
   fetchAttestation_loop fetch url attempts s =
     fetchAttestation_loop fetch url (attempts + 1)
       \<lparr>world = w', effects = effects s @ poll_log url attempts 1\<rparr>"
  by (subst fetchAttestation_loop.simps)
     (auto simp: perform_def sleep_def emit_def is_ready_def split: sum.splits option.splits)

lemma fetch_loop_exhausted:
  "\<not> attempts < 10 \<Longrightarrow>
   fetchAttestation_loop fetch url attempts s =
     (Inl ''Failed to fetch attestation after maximum attempts'', s)"
  by (subst fetchAttestation_loop.simps) simp

lemma fetch_loop_last:
  "attempts + 1 = 10 \<Longrightarrow> fetch url (world s) = (r, w') \<Longrightarrow> \<not> is_ready r \<Longrightarrow>
   fetchAttestation_loop fetch url attempts s =
     (Inl (last_error r), \<lparr>world = w', effects = effects s @ poll_log url attempts 1\<rparr>)"
  by (subst fetchAttestation_loop.simps)
     (auto simp: perform_def sleep_def emit_def is_ready_def last_error_def fetch_loop_exhausted
           split: sum.splits option.splits)

lemma poll_log_append:
  "poll_log url attempts (m + n) = poll_log url attempts m @ poll_log url (attempts + m) n"
  by (induction m arbitrary: attempts) simp_all

lemma fetch_loop_first_ready:
  "outcomes (fetch url) (Suc (length rs)) (world s) = rs @ [Inr data] \<Longrightarrow>
   \<forall>r \<in> set rs. \<not> is_ready r \<Longrightarrow> ready data = Some m \<Longrightarrow> attempts + length rs < 10 \<Longrightarrow>
   fetchAttestation_loop fetch url attempts s =
     (Inr m, \<lparr>world = after (fetch url) (Suc (length rs)) (world s),
              effects = effects s @ poll_log url attempts (Suc (length rs))\<rparr>)"
proof (induction rs arbitrary: attempts s)
  case Nil
  then show ?case
    by (cases "fetch url (world s)") (simp add: fetch_loop_ready)
next
  case (Cons r rs)
  obtain x w' where a: "fetch url (world s) = (x, w')" by (cases "fetch url (world s)")
  with Cons.prems have x: "x = r" and rest: "outcomes (fetch url) (Suc (length rs)) w' = rs @ [Inr data]"
    by simp_all
  let ?s = "\<lparr>world = w', effects = effects s @ poll_log url attempts 1\<rparr>"
  have a': "fetch url (world s) = (r, w')" using a x by simp
  have "fetchAttestation_loop fetch url attempts s = fetchAttestation_loop fetch url (attempts + 1) ?s"
    using a' Cons.prems
    by (intro fetch_loop_not_ready [where fetch = fetch and r = r and w' = w']) simp_all
  also have "\<dots> = (Inr m, \<lparr>world = after (fetch url) (Suc (length rs)) (world ?s),
              effects = effects ?s @ poll_log url (attempts + 1) (Suc (length rs))\<rparr>)"
    using rest Cons.prems by (intro Cons.IH) simp_all
  finally show ?case using a by simp
qed

lemma fetch_loop_never_ready:
  "outcomes (fetch url) (Suc (length rs)) (world s) = rs @ [r] \<Longrightarrow>
   \<forall>r \<in> set rs. \<not> is_ready r \<Longrightarrow> \<not> is_ready r \<Longrightarrow> attempts + length rs + 1 = 10 \<Longrightarrow>
   fetchAttestation_loop fetch url attempts s =
     (Inl (last_error r), \<lparr>world = after (fetch url) (Suc (length rs)) (world s),
              effects = effects s @ poll_log url attempts (Suc (length rs))\<rparr>)"
proof (induction rs arbitrary: attempts s)
  case Nil
  then show ?case
    by (cases "fetch url (world s)") (simp add: fetch_loop_last)
next
  case (Cons y rs)
  obtain x w' where a: "fetch url (world s) = (x, w')" by (cases "fetch url (world s)")
  with Cons.prems have x: "x = y" and rest: "outcomes (fetch url) (Suc (length rs)) w' = rs @ [r]"
    by simp_all
  let ?s = "\<lparr>world = w', effects = effects s @ poll_log url attempts 1\<rparr>"
  have a': "fetch url (world s) = (y, w')" using a x by simp
  have "fetchAttestation_loop fetch url attempts s = fetchAttestation_loop fetch url (attempts + 1) ?s"
    using a' Cons.prems
    by (intro fetch_loop_not_ready [where fetch = fetch and r = y and w' = w']) simp_all
  also have "\<dots> = (Inl (last_error r), \<lparr>world = after (fetch url) (Suc (length rs)) (world ?s),
              effects = effects ?s @ poll_log url (attempts + 1) (Suc (length rs))\<rparr>)"
    using rest Cons.prems by (intro Cons.IH) simp_all
  finally show ?case using a by simp
qed

lemma outcomes_take: "k \<le> n \<Longrightarrow> take k (outcomes f n w) = outcomes f k w"
proof (induction k arbitrary: n w)
  case 0
  show ?case by simp
next
  case (Suc k)
  then obtain n' where "n = Suc n'" by (cases n) auto
  with Suc show ?case by (simp split: prod.split)
qed

lemma sleeps_poll_log:
  "sleeps (poll_log url 0 (Suc n)) = 10000 # replicate n 5000"
proof -
  have "sleeps (poll_log url (Suc a) n) = replicate n 5000" for a
    by (induction n arbitrary: a) simp_all
  then show ?thesis by simp
qed


lemma polls_length: "length (polls fetch chainId txh n w) = n"
  by (simp add: polls_def outcomes_length)

lemma fetchAttestation_first_ready:
  assumes i: "i < 10"
    and before: "\<forall>j<i. \<not> is_ready (polls fetch chainId txh 10 w ! j)"
    and at: "polls fetch chainId txh 10 w ! i = Inr data" "ready data = Some m"
  shows "fst (fetchAttestation fetch chainId txh (fresh w)) = Inr m"
    and "sleeps (effects (snd (fetchAttestation fetch chainId txh (fresh w)))) = 10000 # replicate i 5000"
proof -
  let ?url = "attestation_url chainId txh"
  let ?rs = "outcomes (fetch ?url) 10 w"
  have rs: "polls fetch chainId txh 10 w = ?rs" by (simp add: polls_def)
  have len: "length ?rs = 10" by (rule outcomes_length)
  have "outcomes (fetch ?url) (Suc i) w = take (Suc i) ?rs"
    using i by (simp add: outcomes_take)
  also have "\<dots> = take i ?rs @ [Inr data]"
    using i at(1) len by (simp add: take_Suc_conv_app_nth rs)
  finally have o: "outcomes (fetch ?url) (Suc (length (take i ?rs))) (world (fresh w)) = take i ?rs @ [Inr data]"
    using i len by (simp add: fresh_def)
  have nr: "\<forall>r \<in> set (take i ?rs). \<not> is_ready r"
    using before i len by (auto simp: in_set_conv_nth rs)
  have "fetchAttestation_loop fetch ?url 0 (fresh w) =
          (Inr m, \<lparr>world = after (fetch ?url) (Suc (length (take i ?rs))) (world (fresh w)),
              effects = effects (fresh w) @ poll_log ?url 0 (Suc (length (take i ?rs)))\<rparr>)"
    using o nr at(2) i len by (intro fetch_loop_first_ready) simp_all
  then have eq: "fetchAttestation fetch chainId txh (fresh w) =
          (Inr m, \<lparr>world = after (fetch ?url) (Suc i) w, effects = poll_log ?url 0 (Suc i)\<rparr>)"
    using i len by (simp add: fetchAttestation_def fresh_def)
  show "fst (fetchAttestation fetch chainId txh (fresh w)) = Inr m"
    by (simp only: eq fst_conv)
  show "sleeps (effects (snd (fetchAttestation fetch chainId txh (fresh w)))) = 10000 # replicate i 5000"
    by (simp only: eq snd_conv st.select_convs sleeps_poll_log)
qed

lemma fetchAttestation_never_ready:
  assumes none: "\<forall>x \<in> set (polls fetch chainId txh 10 w). \<not> is_ready x"
  shows "fst (fetchAttestation fetch chainId txh (fresh w)) =
           Inl (last_error (last (polls fetch chainId txh 10 w)))"
    and "sleeps (effects (snd (fetchAttestation fetch chainId txh (fresh w)))) = 10000 # replicate 9 5000"
proof -
  let ?url = "attestation_url chainId txh"
  let ?rs = "outcomes (fetch ?url) 10 w"
  have rs: "polls fetch chainId txh 10 w = ?rs" by (simp add: polls_def)
  have len: "length ?rs = 10" by (rule outcomes_length)
  then have ne: "?rs \<noteq> []" by auto
  have lb: "length (butlast ?rs) = 9" using len by simp
  have s10: "Suc (length (butlast ?rs)) = 10" by (simp only: lb)
  have o: "outcomes (fetch ?url) (Suc (length (butlast ?rs))) (world (fresh w)) = butlast ?rs @ [last ?rs]"
    unfolding s10 using append_butlast_last_id [OF ne] by (simp only: fresh_def st.select_convs)
  have nr: "\<forall>r \<in> set (butlast ?rs). \<not> is_ready r" "\<not> is_ready (last ?rs)"
    using none ne by (auto simp: rs dest: in_set_butlastD)
  have "fetchAttestation_loop fetch ?url 0 (fresh w) =
          (Inl (last_error (last ?rs)), \<lparr>world = after (fetch ?url) (Suc (length (butlast ?rs))) (world (fresh w)),
              effects = effects (fresh w) @ poll_log ?url 0 (Suc (length (butlast ?rs)))\<rparr>)"
    by (rule fetch_loop_never_ready [where fetch = fetch and url = ?url and s = "fresh w"
          and rs = "butlast ?rs" and r = "last ?rs", OF o nr]) (simp add: len)
  then have eq: "fetchAttestation fetch chainId txh (fresh w) =
          (Inl (last_error (last ?rs)), \<lparr>world = after (fetch ?url) (Suc 9) w, effects = poll_log ?url 0 (Suc 9)\<rparr>)"
    by (simp add: fetchAttestation_def fresh_def len)
  show "fst (fetchAttestation fetch chainId txh (fresh w)) =
           Inl (last_error (last (polls fetch chainId txh 10 w)))"
    by (simp only: eq fst_conv rs)
  show "sleeps (effects (snd (fetchAttestation fetch chainId txh (fresh w)))) = 10000 # replicate 9 5000"
    by (simp only: eq snd_conv st.select_convs sleeps_poll_log)
qed

text \<open>
  Claim C2, with "the first message entry" for "at least one message entry", and with the
  error of an exhausted run told apart. Let \<open>rs\<close> be the answers of the first ten polls.
  If poll \<open>i\<close> (counted from 0) is the first whose answer is ready (a body whose first
  message has a non-empty attestation and status \<^verbatim>\<open>complete\<close>), the poller returns that
  message, having waited 10s before the first poll and 5s before each of the \<open>i\<close> later ones.
  If none of the ten is ready, it has waited 10s and nine times 5s and raises: the error of
  the tenth poll when that poll itself failed, the timeout failure otherwise. So it returns
  successfully if and only if one of the ten answers is ready.
\<close>

theorem fetchAttestation_polling:
  "(\<forall>i data m. i < 10 \<and> (\<forall>j<i. \<not> is_ready (polls fetch chainId txh 10 w ! j)) \<and>
        polls fetch chainId txh 10 w ! i = Inr data \<and> ready data = Some m \<longrightarrow>
        fst (fetchAttestation fetch chainId txh (fresh w)) = Inr m \<and>
        sleeps (effects (snd (fetchAttestation fetch chainId txh (fresh w)))) = 10000 # replicate i 5000) \<and>
   ((\<forall>x \<in> set (polls fetch chainId txh 10 w). \<not> is_ready x) \<longrightarrow>
        fst (fetchAttestation fetch chainId txh (fresh w)) =
          Inl (last_error (last (polls fetch chainId txh 10 w))) \<and>
        sleeps (effects (snd (fetchAttestation fetch chainId txh (fresh w)))) = 10000 # replicate 9 5000) \<and>
   ((\<exists>m. fst (fetchAttestation fetch chainId txh (fresh w)) = Inr m) \<longleftrightarrow>
        (\<exists>x \<in> set (polls fetch chainId txh 10 w). is_ready x))"
proof (intro conjI allI impI)
  fix i data m
  assume h: "i < 10 \<and> (\<forall>j<i. \<not> is_ready (polls fetch chainId txh 10 w ! j)) \<and>
        polls fetch chainId txh 10 w ! i = Inr data \<and> ready data = Some m"
  then show "fst (fetchAttestation fetch chainId txh (fresh w)) = Inr m"
    by (intro fetchAttestation_first_ready(1) [where i = i and data = data]) simp_all
  from h show "sleeps (effects (snd (fetchAttestation fetch chainId txh (fresh w)))) = 10000 # replicate i 5000"
    by (intro fetchAttestation_first_ready(2) [where data = data and m = m]) simp_all
next
  assume "\<forall>x \<in> set (polls fetch chainId txh 10 w). \<not> is_ready x"
  then show "fst (fetchAttestation fetch chainId txh (fresh w)) =
          Inl (last_error (last (polls fetch chainId txh 10 w)))"
    and "sleeps (effects (snd (fetchAttestation fetch chainId txh (fresh w)))) = 10000 # replicate 9 5000"
    by (rule fetchAttestation_never_ready)+
next
  let ?rs = "polls fetch chainId txh 10 w"
  show "(\<exists>m. fst (fetchAttestation fetch chainId txh (fresh w)) = Inr m) \<longleftrightarrow> (\<exists>x \<in> set ?rs. is_ready x)"
  proof
    assume ex: "\<exists>m. fst (fetchAttestation fetch chainId txh (fresh w)) = Inr m"
    show "\<exists>x \<in> set ?rs. is_ready x"
    proof (rule ccontr)
      assume "\<not> (\<exists>x \<in> set ?rs. is_ready x)"
      then have "\<forall>x \<in> set ?rs. \<not> is_ready x" by simp
      from fetchAttestation_never_ready(1) [OF this] ex show False by simp
    qed
  next
    assume "\<exists>x \<in> set ?rs. is_ready x"
    then have "\<exists>i. i < 10 \<and> is_ready (?rs ! i)"
      by (auto simp: in_set_conv_nth polls_length)
    then obtain i where i: "i < 10 \<and> is_ready (?rs ! i)" and least: "\<forall>j<i. \<not> (j < 10 \<and> is_ready (?rs ! j))"
      using exists_least_iff [of "\<lambda>i. i < 10 \<and> is_ready (?rs ! i)"] by auto
    from i obtain data m where d: "?rs ! i = Inr data" "ready data = Some m"
      by (auto simp: is_ready_def split: sum.splits)
    have "\<forall>j<i. \<not> is_ready (?rs ! j)" using least i by auto
    then have "fst (fetchAttestation fetch chainId txh (fresh w)) = Inr m"
      using i d by (intro fetchAttestation_first_ready(1) [where i = i and data = data]) simp_all
    then show "\<exists>m. fst (fetchAttestation fetch chainId txh (fresh w)) = Inr m" ..
  qed
qed


lemma ready_examples:
  "ready (Some [complete_message]) = Some complete_message"
  "ready (Some [pending_message]) = None"
  "ready (Some [pending_message, complete_message]) = None"
  "ready (Some []) = None" "ready None = None"
  by (simp_all add: ready_def complete_message_def pending_message_def truthy_def)

lemma is_ready_examples:
  "is_ready (Inr (Some [complete_message]))"
  "\<not> is_ready (Inr (Some [pending_message]))"
  "\<not> is_ready (Inr (Some [pending_message, complete_message]))"
  "\<not> is_ready (Inr (Some []))" "\<not> is_ready (Inr None)" "\<not> is_ready (Inl e)"
  by (simp_all add: is_ready_def ready_examples)

text \<open>
  The theorem at a service that is complete on the third poll, and at one that never is.
\<close>

theorem fetchAttestation_polling_witness:
  "fst (fetchAttestation scripted_fetch 6 ''0xb0b''
          (fresh [Inr (Some []), Inr (Some [pending_message]), Inr (Some [complete_message])]))
     = Inr complete_message \<and>
   sleeps (effects (snd (fetchAttestation scripted_fetch 6 ''0xb0b''
          (fresh [Inr (Some []), Inr (Some [pending_message]), Inr (Some [complete_message])]))))
     = [10000, 5000, 5000] \<and>
   fst (fetchAttestation scripted_fetch 6 ''0xb0b'' (fresh []))
     = Inl ''Failed to fetch attestation after maximum attempts'' \<and>
   sleeps (effects (snd (fetchAttestation scripted_fetch 6 ''0xb0b'' (fresh []))))
     = [10000, 5000, 5000, 5000, 5000, 5000, 5000, 5000, 5000, 5000]"
proof -
  let ?w = "[Inr (Some []), Inr (Some [pending_message]), Inr (Some [complete_message])]"
  have p: "polls scripted_fetch 6 ''0xb0b'' 10 ?w =
           [Inr (Some []), Inr (Some [pending_message]), Inr (Some [complete_message]),
            Inr None, Inr None, Inr None, Inr None, Inr None, Inr None, Inr None]"
    by (simp add: polls_def scripted_fetch_def scripted_def eval_nat_numeral)
  have q: "polls scripted_fetch 6 ''0xb0b'' 10 [] = replicate 10 (Inr None)"
    by (simp add: polls_def scripted_fetch_def scripted_def eval_nat_numeral)
  have b: "\<forall>j<2. \<not> is_ready (polls scripted_fetch 6 ''0xb0b'' 10 ?w ! j)"
    by (simp add: p numeral_2_eq_2 less_Suc_eq is_ready_examples)
  note t = fetchAttestation_polling [where fetch = scripted_fetch and chainId = 6 and txh = "''0xb0b''"]
  have 1: "fst (fetchAttestation scripted_fetch 6 ''0xb0b'' (fresh ?w)) = Inr complete_message \<and>
        sleeps (effects (snd (fetchAttestation scripted_fetch 6 ''0xb0b'' (fresh ?w)))) = 10000 # replicate 2 5000"
    using t [where w = ?w, THEN conjunct1, rule_format, of 2 "Some [complete_message]" complete_message] b
    by (simp add: p ready_examples)
  have 2: "fst (fetchAttestation scripted_fetch 6 ''0xb0b'' (fresh [])) =
             Inl (last_error (last (polls scripted_fetch 6 ''0xb0b'' 10 []))) \<and>
        sleeps (effects (snd (fetchAttestation scripted_fetch 6 ''0xb0b'' (fresh [])))) = 10000 # replicate 9 5000"
    using t [where w = "[]", THEN conjunct2, THEN conjunct1, rule_format]
    by (simp add: q is_ready_examples)
  have r: "replicate 2 (5000::int) = [5000, 5000]"
    "replicate 9 (5000::int) = [5000, 5000, 5000, 5000, 5000, 5000, 5000, 5000, 5000]"
    by (simp_all add: eval_nat_numeral)
  from 1 2 show ?thesis
    by (simp add: q last_error_def r)
qed

text \<open>
  Claim C2 as stated fails. Every answer below holds a message entry that is complete with
  an attestation, as its second entry: the poller reads only \<^verbatim>\<open>data.messages[0]\<close> and times
  out. And when the tenth poll fails at the network level, what is raised is that error, not
  the timeout failure.
\<close>

theorem fetchAttestation_first_entry_counterexample:
  "some_entry_complete (hd (polls scripted_fetch 6 ''0xb0b'' 10
      (replicate 10 (Inr (Some [pending_message, complete_message]))))) \<and>
   fst (fetchAttestation scripted_fetch 6 ''0xb0b''
      (fresh (replicate 10 (Inr (Some [pending_message, complete_message])))))
     = Inl ''Failed to fetch attestation after maximum attempts'' \<and>
   fst (fetchAttestation scripted_fetch 6 ''0xb0b''
      (fresh (replicate 9 (Inr (Some [])) @ [Inl ''socket hang up''])))
     = Inl ''socket hang up''"
proof -
  have 1: "some_entry_complete (hd (polls scripted_fetch 6 ''0xb0b'' 10
      (replicate 10 (Inr (Some [pending_message, complete_message])))))"
    by (simp add: polls_def scripted_fetch_def scripted_def eval_nat_numeral some_entry_complete_def
        complete_entry_def complete_message_def pending_message_def truthy_def)
  have 2: "fst (fetchAttestation scripted_fetch 6 ''0xb0b''
      (fresh (replicate 10 (Inr (Some [pending_message, complete_message])))))
     = Inl ''Failed to fetch attestation after maximum attempts''"
    by (simp add: fetchAttestation_def fetchAttestation_loop.simps perform_def sleep_def emit_def
        fresh_def scripted_fetch_def scripted_def eval_nat_numeral ready_examples)
  have 3: "fst (fetchAttestation scripted_fetch 6 ''0xb0b''
      (fresh (replicate 9 (Inr (Some [])) @ [Inl ''socket hang up''])))
     = Inl ''socket hang up''"
    by (simp add: fetchAttestation_def fetchAttestation_loop.simps perform_def sleep_def emit_def
        fresh_def scripted_fetch_def scripted_def eval_nat_numeral ready_examples)
  from 1 2 3 show ?thesis by simp
qed

section \<open>Properties of wallet provisioning\<close>

declare createWalletOnChain_loop.simps [simp del]
declare createAvalancheTransferWallet_loop.simps [simp del]

lemma create_attempt_connects:
  "\<exists>es. effects (snd (create_attempt api cfg args s)) = effects s @ Connect cfg # es"
  by (auto simp: create_attempt_def perform_def split: prod.splits sum.splits option.splits)

lemma createWalletOnChain_loop_extends:
  "\<exists>es. effects (snd (createWalletOnChain_loop api cfg mintRecipient attempts s)) = effects s @ es"
proof (induction api cfg mintRecipient attempts s rule: createWalletOnChain_loop.induct)
  case (1 api cfg mintRecipient attempts s)
  let ?a = "create_attempt api cfg (BurnWallet DESTINATION_DOMAIN mintRecipient) s"
  obtain r s' where a: "?a = (r, s')" by (cases ?a)
  obtain es where es: "effects s' = effects s @ Connect cfg # es"
    using create_attempt_connects [of api cfg "BurnWallet DESTINATION_DOMAIN mintRecipient" s] a by auto
  show ?case
  proof (cases "attempts < 6")
    case False
    then show ?thesis by (subst createWalletOnChain_loop.simps) simp
  next
    case True
    show ?thesis
    proof (cases r)
      case (Inr walletAddress)
      with True a es show ?thesis by (subst createWalletOnChain_loop.simps) simp
    next
      case (Inl err)
      show ?thesis
      proof (cases "attempts + 1 \<ge> 6")
        case True
        with \<open>attempts < 6\<close> a es Inl show ?thesis by (subst createWalletOnChain_loop.simps) simp
      next
        case False
        from "1.IH" [OF \<open>attempts < 6\<close> a [symmetric] Inl False]
        obtain es' where "effects (snd (createWalletOnChain_loop api cfg mintRecipient (attempts + 1)
             (sleep (1500 * int (attempts + 1)) s'))) = effects (sleep (1500 * int (attempts + 1)) s') @ es'"
          by auto
        with \<open>attempts < 6\<close> a es Inl False show ?thesis
          by (subst createWalletOnChain_loop.simps) (simp add: sleep_def emit_def)
      qed
    qed
  qed
qed

lemma createWalletOnChain_loop_connects:
  "\<exists>es. effects (snd (createWalletOnChain_loop api cfg mintRecipient 0 s)) = effects s @ Connect cfg # es"
proof -
  let ?a = "create_attempt api cfg (BurnWallet DESTINATION_DOMAIN mintRecipient) s"
  obtain r s' where a: "?a = (r, s')" by (cases ?a)
  obtain es where es: "effects s' = effects s @ Connect cfg # es"
    using create_attempt_connects [of api cfg "BurnWallet DESTINATION_DOMAIN mintRecipient" s] a by auto
  show ?thesis
  proof (cases r)
    case (Inr walletAddress)
    with a es show ?thesis by (subst createWalletOnChain_loop.simps) simp
  next
    case (Inl err)
    obtain es' where "effects (snd (createWalletOnChain_loop api cfg mintRecipient (0 + 1)
             (sleep (1500 * int (0 + 1)) s'))) = effects (sleep (1500 * int (0 + 1)) s') @ es'"
      using createWalletOnChain_loop_extends by blast
    with a es Inl show ?thesis
      by (subst createWalletOnChain_loop.simps) (simp add: sleep_def emit_def)
  qed
qed

lemma property_of_constructor: "property_of (CHAIN_CONFIGS env) ''constructor'' = Inherited"
  by (simp add: property_of_def CHAIN_CONFIGS_def objectPrototypeMembers_def)

text \<open>
  Claim C8 at the chain key \<^verbatim>\<open>constructor\<close>, which is not in the configured set. The read
  \<^verbatim>\<open>CHAIN_CONFIGS["constructor"]\<close> yields the inherited \<^verbatim>\<open>Object\<close> function, the guard
  \<^verbatim>\<open>if (!cfg)\<close> lets it pass, and the retry loop is entered: whatever the network does,
  the first thing that happens is the construction of a client from a configuration with
  no \<^verbatim>\<open>rpc\<close> and no \<^verbatim>\<open>factory\<close>. The call does not fail at once with nothing done.
\<close>

theorem createWalletOnChain_inherited_key:
  "\<exists>es. effects (snd (createWalletOnChain api env ''constructor'' mintRecipient s))
          = effects s @ Connect no_fields # es"
  using createWalletOnChain_loop_connects [of api no_fields mintRecipient s]
  by (simp add: createWalletOnChain_def property_of_constructor)

text \<open>
  On the small chain, where a client cannot be built without a contract address, the call
  for \<^verbatim>\<open>constructor\<close> makes its six attempts with the backoff sleeps between them and
  raises the client's error, not the "Unsupported chain" error.
\<close>

lemma createWalletOnChain_constructor_run:
  "fst (createWalletOnChain operator testnet ''constructor'' ''0xmr'' (fresh quiet))
     = Inl ''invalid value for Contract target'' \<and>
   sleeps (effects (snd (createWalletOnChain operator testnet ''constructor'' ''0xmr'' (fresh quiet))))
     = [1500, 3000, 4500, 6000, 7500]"
  by code_simp

text \<open>
  For a key that is neither configured nor a member of \<^verbatim>\<open>Object.prototype\<close>, the call does
  fail at once with the "Unsupported chain" error and with no effect at all.
\<close>

lemma createWalletOnChain_unsupported:
  "chainKey \<notin> {''arbitrum'', ''base'', ''avalanche''} \<Longrightarrow> chainKey \<notin> set objectPrototypeMembers \<Longrightarrow>
   createWalletOnChain api env chainKey mintRecipient s = (Inl (unsupported_chain chainKey), s)"
  by (simp add: createWalletOnChain_def property_of_def CHAIN_CONFIGS_def)













lemma transfer_config:
  "AVALANCHE_TRANSFER_CONFIG testnet =
     \<lparr>rpc = Some ''https://avax.example'', factory = Some ''0xFt'', label = Some ''Avalanche Fuji Transfer''\<rparr>"
  by (simp add: AVALANCHE_TRANSFER_CONFIG_def testnet_def)


lemma loop_recovers:
  assumes attempts: "attempts < 3"
    and connect: "api_connect api cfg (world s) = (Inr (), w1)"
    and owner: "api_owner api cfg w1 = (Inr a, w2)" "toLowerCase a = toLowerCase (signer_address api)"
    and submit: "api_createSingleWallet api cfg (TransferWallet dest) w2 = (Inl err, w3)"
    and known: "str_includes err ''already known''"
    and reconnect: "api_connect api cfg w3 = (Inr (), w4)"
    and rescan: "api_queryFilter api cfg None (- 20) w4 = (Inr events, w5)"
    and found: "events \<noteq> []"
  shows "createAvalancheTransferWallet_loop api cfg dest attempts s =
           (Inr (Some (wallet (last events))),
            \<lparr>world = w5,
             effects = effects s @
               [Connect cfg, OwnerCall cfg, Submit cfg (TransferWallet dest),
                Sleep 10000, Connect cfg, QueryFilter cfg None (- 20)]\<rparr>)"
proof -
  have a: "create_attempt api cfg (TransferWallet dest) s =
             (Inl err, \<lparr>world = w3, effects = effects s @
                [Connect cfg, OwnerCall cfg, Submit cfg (TransferWallet dest)]\<rparr>)"
    by (simp add: create_attempt_def perform_def connect owner submit)
  have r: "recent_wallet api cfg None (- 20)
             (sleep 10000 \<lparr>world = w3, effects = effects s @
                [Connect cfg, OwnerCall cfg, Submit cfg (TransferWallet dest)]\<rparr>) =
           (Some (wallet (last events)),
            \<lparr>world = w5, effects = effects s @
               [Connect cfg, OwnerCall cfg, Submit cfg (TransferWallet dest),
                Sleep 10000, Connect cfg, QueryFilter cfg None (- 20)]\<rparr>)"
    using found by (simp add: recent_wallet_def perform_def sleep_def emit_def reconnect rescan)
  show ?thesis
    by (subst createAvalancheTransferWallet_loop.simps)
       (simp only: attempts a r known if_True prod.case sum.case option.case)
qed


lemma operator_calls:
  "api_connect operator (AVALANCHE_TRANSFER_CONFIG testnet) w = (Inr (), w)"
  "api_owner operator cfg w = (Inr ''0xOperator'', w)"
  "toLowerCase ''0xOperator'' = toLowerCase (signer_address operator)"
proof -
  show "api_connect operator (AVALANCHE_TRANSFER_CONFIG testnet) w = (Inr (), w)"
    by (simp add: operator_def sim_api_def sim_connect_def transfer_config)
  show "api_owner operator cfg w = (Inr ''0xOperator'', w)"
    by (simp add: operator_def sim_api_def sim_owner_def)
  have "toLowerCase ''0xOperator'' = ''0xoperator''" "toLowerCase ''0xoperator'' = ''0xoperator''"
    by code_simp+
  then show "toLowerCase ''0xOperator'' = toLowerCase (signer_address operator)"
    by (simp add: operator_def sim_api_def)
qed

lemma bobs_chain_calls:
  "api_createSingleWallet operator (AVALANCHE_TRANSFER_CONFIG testnet) (TransferWallet d) bobs_chain =
     (Inl ''nonce too low: already known'', bobs_chain\<lparr>submit_faults := []\<rparr>)"
  "str_includes ''nonce too low: already known'' ''already known''"
  "api_queryFilter operator (AVALANCHE_TRANSFER_CONFIG testnet) None (- 20) (bobs_chain\<lparr>submit_faults := []\<rparr>) =
     (Inr [\<lparr>wallet = ''0xWalletOfBob'', destination = ''0xBob''\<rparr>], bobs_chain\<lparr>submit_faults := []\<rparr>)"
  "api_queryFilter operator (AVALANCHE_TRANSFER_CONFIG testnet) (Some ''0xAlice'') (- 50) bobs_chain =
     (Inr [], bobs_chain)"
  by (simp_all add: operator_def sim_api_def sim_createSingleWallet_def sim_queryFilter_def
      bobs_chain_def transfer_config)


text \<open>
  Claim C9. A whole call in which the pre-creation check finds nothing and the submission
  is "already known": the pre-creation query is filtered by the destination
  (\<open>Some dest\<close>, from block \<open>-50\<close>), the recovery query is not (\<open>None\<close>, from block \<open>-20\<close>), and
  the call returns the wallet of the last event of the recovery query, whatever the
  destination of that event is: nothing relates \<open>destination ev\<close> to \<open>dest\<close>.
\<close>

theorem recovery_ignores_destination:
  assumes "api_connect api (AVALANCHE_TRANSFER_CONFIG env) (world s) = (Inr (), v1)"
    and "api_queryFilter api (AVALANCHE_TRANSFER_CONFIG env) (Some dest) (- 50) v1 = (Inr [], v2)"
    and "api_connect api (AVALANCHE_TRANSFER_CONFIG env) v2 = (Inr (), w1)"
    and "api_owner api (AVALANCHE_TRANSFER_CONFIG env) w1 = (Inr a, w2)"
    and "toLowerCase a = toLowerCase (signer_address api)"
    and "api_createSingleWallet api (AVALANCHE_TRANSFER_CONFIG env) (TransferWallet dest) w2 = (Inl err, w3)"
    and "str_includes err ''already known''"
    and "api_connect api (AVALANCHE_TRANSFER_CONFIG env) w3 = (Inr (), w4)"
    and "api_queryFilter api (AVALANCHE_TRANSFER_CONFIG env) None (- 20) w4 = (Inr (events @ [ev]), w5)"
  shows "createAvalancheTransferWallet api env dest s =
           (Inr (Some (wallet ev)),
            \<lparr>world = w5,
             effects = effects s @
               [Connect (AVALANCHE_TRANSFER_CONFIG env),
                QueryFilter (AVALANCHE_TRANSFER_CONFIG env) (Some dest) (- 50),
                Connect (AVALANCHE_TRANSFER_CONFIG env), OwnerCall (AVALANCHE_TRANSFER_CONFIG env),
                Submit (AVALANCHE_TRANSFER_CONFIG env) (TransferWallet dest),
                Sleep 10000,
                Connect (AVALANCHE_TRANSFER_CONFIG env),
                QueryFilter (AVALANCHE_TRANSFER_CONFIG env) None (- 20)]\<rparr>)"
proof -
  let ?cfg = "AVALANCHE_TRANSFER_CONFIG env"
  let ?s = "\<lparr>world = v2, effects = effects s @ [Connect ?cfg, QueryFilter ?cfg (Some dest) (- 50)]\<rparr>"
  have pre: "recent_wallet api ?cfg (Some dest) (- 50) s = (None, ?s)"
    by (simp add: recent_wallet_def perform_def assms(1,2))
  have "createAvalancheTransferWallet_loop api ?cfg dest 0 ?s =
          (Inr (Some (wallet (last (events @ [ev])))),
            \<lparr>world = w5,
             effects = effects ?s @
               [Connect ?cfg, OwnerCall ?cfg, Submit ?cfg (TransferWallet dest),
                Sleep 10000, Connect ?cfg, QueryFilter ?cfg None (- 20)]\<rparr>)"
    using assms(3-9) by (intro loop_recovers [where s = ?s and a = a and err = err]) simp_all
  then show ?thesis
    by (simp add: createAvalancheTransferWallet_def pre)
qed

text \<open>
  The theorem on the small chain: a call for Alice returns the wallet that was created
  for Bob.
\<close>

theorem recovery_ignores_destination_witness:
  "createAvalancheTransferWallet operator testnet ''0xAlice'' (fresh bobs_chain) =
     (Inr (Some (wallet \<lparr>wallet = ''0xWalletOfBob'', destination = ''0xBob''\<rparr>)),
      \<lparr>world = bobs_chain\<lparr>submit_faults := []\<rparr>,
       effects = effects (fresh bobs_chain) @
         [Connect (AVALANCHE_TRANSFER_CONFIG testnet),
          QueryFilter (AVALANCHE_TRANSFER_CONFIG testnet) (Some ''0xAlice'') (- 50),
          Connect (AVALANCHE_TRANSFER_CONFIG testnet), OwnerCall (AVALANCHE_TRANSFER_CONFIG testnet),
          Submit (AVALANCHE_TRANSFER_CONFIG testnet) (TransferWallet ''0xAlice''),
          Sleep 10000,
          Connect (AVALANCHE_TRANSFER_CONFIG testnet),
          QueryFilter (AVALANCHE_TRANSFER_CONFIG testnet) None (- 20)]\<rparr>) \<and>
   destination \<lparr>wallet = ''0xWalletOfBob'', destination = ''0xBob''\<rparr> \<noteq> ''0xAlice''"
proof -
  have q: "api_queryFilter operator (AVALANCHE_TRANSFER_CONFIG testnet) None (- 20) (bobs_chain\<lparr>submit_faults := []\<rparr>) =
     (Inr ([] @ [\<lparr>wallet = ''0xWalletOfBob'', destination = ''0xBob''\<rparr>]), bobs_chain\<lparr>submit_faults := []\<rparr>)"
    using bobs_chain_calls(3) by simp
  have "createAvalancheTransferWallet operator testnet ''0xAlice'' (fresh bobs_chain) =
     (Inr (Some (wallet \<lparr>wallet = ''0xWalletOfBob'', destination = ''0xBob''\<rparr>)),
      \<lparr>world = bobs_chain\<lparr>submit_faults := []\<rparr>,
       effects = effects (fresh bobs_chain) @
         [Connect (AVALANCHE_TRANSFER_CONFIG testnet),
          QueryFilter (AVALANCHE_TRANSFER_CONFIG testnet) (Some ''0xAlice'') (- 50),
          Connect (AVALANCHE_TRANSFER_CONFIG testnet), OwnerCall (AVALANCHE_TRANSFER_CONFIG testnet),
          Submit (AVALANCHE_TRANSFER_CONFIG testnet) (TransferWallet ''0xAlice''),
          Sleep 10000,
          Connect (AVALANCHE_TRANSFER_CONFIG testnet),
          QueryFilter (AVALANCHE_TRANSFER_CONFIG testnet) None (- 20)]\<rparr>)"
    by (rule recovery_ignores_destination [where ?v1.0 = bobs_chain and ?v2.0 = bobs_chain
          and ?w1.0 = bobs_chain and ?w2.0 = bobs_chain and a = "''0xOperator''"
          and err = "''nonce too low: already known''" and ?w3.0 = "bobs_chain\<lparr>submit_faults := []\<rparr>"
          and ?w4.0 = "bobs_chain\<lparr>submit_faults := []\<rparr>" and events = "[]"])
       (simp_all only: operator_calls bobs_chain_calls(1,2,4) q fresh_def st.select_convs)
  then show ?thesis by simp
qed


lemma submissions_append: "submissions (xs @ ys) = submissions xs + submissions ys"
  by (simp add: submissions_def)

lemma create_attempt_submissions:
  "submissions (effects (snd (create_attempt api cfg args s))) \<le> submissions (effects s) + 1"
  by (auto simp: create_attempt_def perform_def submissions_def
      split: prod.splits sum.splits option.splits)

lemma recent_wallet_submissions:
  "submissions (effects (snd (recent_wallet api cfg dest fromBlock s))) = submissions (effects s)"
  by (auto simp: recent_wallet_def perform_def submissions_def split: prod.splits sum.splits)

lemma sleep_submissions: "submissions (effects (sleep ms s)) = submissions (effects s)"
  by (simp add: sleep_def emit_def submissions_def)

lemma transfer_loop_submissions:
  "submissions (effects (snd (createAvalancheTransferWallet_loop api cfg dest attempts s)))
     \<le> submissions (effects s) + (3 - attempts)"
proof (induction api cfg dest attempts s rule: createAvalancheTransferWallet_loop.induct)
  case (1 api cfg dest attempts s)
  show ?case
  proof (cases "attempts < 3")
    case False
    then show ?thesis by (subst createAvalancheTransferWallet_loop.simps) simp
  next
    case True
    obtain r s' where a: "create_attempt api cfg (TransferWallet dest) s = (r, s')"
      by (cases "create_attempt api cfg (TransferWallet dest) s")
    have sa: "submissions (effects s') \<le> submissions (effects s) + 1"
      using create_attempt_submissions [of api cfg "TransferWallet dest" s] a by simp
    show ?thesis
    proof (cases r)
      case (Inr walletAddress)
      with True a sa show ?thesis
        by (subst createAvalancheTransferWallet_loop.simps) simp
    next
      case (Inl err)
      let ?rec = "if str_includes err ''already known''
                  then recent_wallet api cfg None (- 20) (sleep 10000 s') else (None, s')"
      obtain found s'' where rec: "?rec = (found, s'')" by (cases ?rec)
      have sr: "submissions (effects s'') = submissions (effects s')"
        using rec recent_wallet_submissions [of api cfg None "- 20" "sleep 10000 s'"]
        by (auto simp: sleep_submissions split: if_splits)
      show ?thesis
      proof (cases found)
        case (Some walletAddress)
        with True a Inl rec sa sr show ?thesis
          by (subst createAvalancheTransferWallet_loop.simps) (simp del: str_includes.simps)
      next
        case None
        show ?thesis
        proof (cases "attempts + 1 \<ge> 3")
          case True
          with \<open>attempts < 3\<close> a Inl rec None sa sr show ?thesis
            by (subst createAvalancheTransferWallet_loop.simps) (simp del: str_includes.simps)
        next
          case False
          have ih: "submissions (effects (snd (createAvalancheTransferWallet_loop api cfg dest (attempts + 1)
                      (sleep (3000 * int (attempts + 1)) s''))))
                    \<le> submissions (effects (sleep (3000 * int (attempts + 1)) s'')) + (3 - (attempts + 1))"
            using "1.IH" [OF \<open>attempts < 3\<close> a [symmetric] Inl rec [symmetric] None False] .
          have "createAvalancheTransferWallet_loop api cfg dest attempts s =
                createAvalancheTransferWallet_loop api cfg dest (attempts + 1)
                      (sleep (3000 * int (attempts + 1)) s'')"
            using \<open>attempts < 3\<close> a Inl rec None False
            by (subst createAvalancheTransferWallet_loop.simps) (simp del: str_includes.simps)
          with ih sa sr False show ?thesis
            by (simp add: sleep_submissions)
        qed
      qed
    qed
  qed
qed

lemma transfer_wallet_submissions:
  "submissions (effects (snd (createAvalancheTransferWallet api env dest s))) \<le> submissions (effects s) + 3"
proof -
  let ?cfg = "AVALANCHE_TRANSFER_CONFIG env"
  obtain found s' where pre: "recent_wallet api ?cfg (Some dest) (- 50) s = (found, s')"
    by (cases "recent_wallet api ?cfg (Some dest) (- 50) s")
  have sp: "submissions (effects s') = submissions (effects s)"
    using recent_wallet_submissions [of api ?cfg "Some dest" "- 50" s] pre by simp
  show ?thesis
  proof (cases found)
    case (Some walletAddress)
    with pre sp show ?thesis by (simp add: createAvalancheTransferWallet_def)
  next
    case None
    with pre sp transfer_loop_submissions [of api ?cfg dest 0 s'] show ?thesis
      by (simp add: createAvalancheTransferWallet_def)
  qed
qed

text \<open>
  Claim C5, amended. After a first call that returned a wallet address \<open>a\<close>, a second call
  for the same destination whose pre-creation query (filtered by destination, from block
  \<open>-50\<close>) succeeds, yields events, and has as its most recent event the one of wallet \<open>a\<close>,
  returns \<open>a\<close> again; it does nothing but build a client and run that query, so it submits
  no creation transaction. The first call submitted at most three (one per attempt).
\<close>

theorem transfer_wallet_second_call:
  assumes first: "createAvalancheTransferWallet api env dest s0 = (Inr (Some a), s1)"
    and connect: "api_connect api (AVALANCHE_TRANSFER_CONFIG env) (world s1) = (Inr (), w2)"
    and query: "api_queryFilter api (AVALANCHE_TRANSFER_CONFIG env) (Some dest) (- 50) w2 = (Inr events, w3)"
    and found: "events \<noteq> []" "wallet (last events) = a"
  shows "createAvalancheTransferWallet api env dest s1 =
           (Inr (Some a),
            \<lparr>world = w3,
             effects = effects s1 @
               [Connect (AVALANCHE_TRANSFER_CONFIG env),
                QueryFilter (AVALANCHE_TRANSFER_CONFIG env) (Some dest) (- 50)]\<rparr>) \<and>
         submissions (effects (snd (createAvalancheTransferWallet api env dest s1))) = submissions (effects s1) \<and>
         submissions (effects s1) \<le> submissions (effects s0) + 3"
proof -
  let ?cfg = "AVALANCHE_TRANSFER_CONFIG env"
  have pre: "recent_wallet api ?cfg (Some dest) (- 50) s1 =
               (Some a, \<lparr>world = w3, effects = effects s1 @ [Connect ?cfg, QueryFilter ?cfg (Some dest) (- 50)]\<rparr>)"
    using found by (simp add: recent_wallet_def perform_def connect query)
  have eq: "createAvalancheTransferWallet api env dest s1 =
           (Inr (Some a), \<lparr>world = w3, effects = effects s1 @ [Connect ?cfg, QueryFilter ?cfg (Some dest) (- 50)]\<rparr>)"
    by (simp add: createAvalancheTransferWallet_def pre)
  have "submissions (effects s1) \<le> submissions (effects s0) + 3"
    using transfer_wallet_submissions [of api env dest s0] first by simp
  then show ?thesis
    by (simp add: eq submissions_append) (simp add: submissions_def)
qed

text \<open>
  The theorem on the small chain: two calls for Alice on a chain without faults.
\<close>

theorem transfer_wallet_second_call_witness:
  "fst quiet_first_call = Inr (Some ''0xW1'') \<and>
   createAvalancheTransferWallet operator testnet ''0xAlice'' (snd quiet_first_call) =
     (Inr (Some ''0xW1''),
      \<lparr>world = world (snd quiet_first_call),
       effects = effects (snd quiet_first_call) @
         [Connect (AVALANCHE_TRANSFER_CONFIG testnet),
          QueryFilter (AVALANCHE_TRANSFER_CONFIG testnet) (Some ''0xAlice'') (- 50)]\<rparr>) \<and>
   submissions (effects (snd (createAvalancheTransferWallet operator testnet ''0xAlice'' (snd quiet_first_call))))
     = submissions (effects (snd quiet_first_call)) \<and>
   submissions (effects (snd quiet_first_call)) \<le> submissions (effects (fresh quiet)) + 3"
proof -
  have f: "fst quiet_first_call = Inr (Some ''0xW1'')"
    by code_simp
  then have first: "createAvalancheTransferWallet operator testnet ''0xAlice'' (fresh quiet) =
      (Inr (Some ''0xW1''), snd quiet_first_call)"
    by (simp add: quiet_first_call_def prod_eq_iff)
  have q: "api_queryFilter operator (AVALANCHE_TRANSFER_CONFIG testnet) (Some ''0xAlice'') (- 50)
             (world (snd quiet_first_call)) =
           (Inr [\<lparr>wallet = ''0xW1'', destination = ''0xAlice''\<rparr>], world (snd quiet_first_call))"
    by code_simp
  have ne: "[\<lparr>wallet = ''0xW1'', destination = ''0xAlice''\<rparr>] \<noteq> []"
    and la: "wallet (last [\<lparr>wallet = ''0xW1'', destination = ''0xAlice''\<rparr>]) = ''0xW1''"
    by simp_all
  from transfer_wallet_second_call [OF first operator_calls(1) q ne la] f
  show ?thesis by blast
qed

text \<open>
  Claim C5 as stated fails in two ways. First: when the receipt wait of the first attempt
  times out, the first call submits a second creation transaction in its second attempt;
  both calls return the same address, the first call's event is found by the second call,
  and yet two creation transactions were submitted. Second: when someone else creates a
  wallet for the same destination between the calls, the first call's event is still among
  the events the second call finds, but the second call returns the wallet of the most
  recent one, which is another address.
\<close>

theorem transfer_wallet_idempotence_counterexample:
  "fst retried_first_call = Inr (Some ''0xW2'') \<and>
   fst retried_second_call = Inr (Some ''0xW2'') \<and>
   submissions (effects (snd retried_second_call)) = 2 \<and>
   fst quiet_first_call = Inr (Some ''0xW1'') \<and>
   \<lparr>wallet = ''0xW1'', destination = ''0xAlice''\<rparr>
      \<in> set (map snd (sim_events (world (third_party_creation (snd quiet_first_call))))) \<and>
   fst quiet_second_call = Inr (Some ''0xW2'')"
  by code_simp


lemma chain_names: "toUpperCase ''arbitrum'' = ''ARBITRUM''" "toUpperCase ''base'' = ''BASE''"
  by code_simp+

lemma burn_wallets_two:
  assumes "createWalletOnChain api env c1 b32 s1 = (r1, s2)"
    and "createWalletOnChain api env c2 b32 s2 = (r2, s3)"
  shows "burn_wallets api env b32 [c1, c2] ls s1 = (ls @ wallet_line c1 r1 @ wallet_line c2 r2, s3)"
  using assms by (cases r1; cases r2) (simp_all add: wallet_line_def)

text \<open>
  Claim C6. If the transfer-wallet creation throws, the handler answers status 500 with
  "Failed to create Avalanche transfer wallet", and its final state is the state right
  after that creation: no burn wallet is attempted. If it returns an address (which
  \<^verbatim>\<open>ethers.zeroPadValue\<close> pads to 32 bytes), the handler runs the burn-wallet creation for
  \<^verbatim>\<open>arbitrum\<close> and then for \<^verbatim>\<open>base\<close>, one after the other whatever the outcome of the first,
  and answers with the plain text of the lines: the Avalanche wallet, then one line for each
  burn wallet that was created and none for one that failed. No failure of a burn wallet
  reaches the caller.
\<close>

theorem create_wallet_all_isolation:
  "(dest \<noteq> [] \<and> createAvalancheTransferWallet api env dest s = (Inl e, s1) \<longrightarrow>
      create_wallet_all api env (Some dest) s =
        (Json 500 ''Failed to create Avalanche transfer wallet'', s1)) \<and>
   (dest \<noteq> [] \<and> createAvalancheTransferWallet api env dest s = (Inr a, s1) \<and>
    zeroPadValue api a = Inr b32 \<and>
    createWalletOnChain api env ''arbitrum'' b32 s1 = (r1, s2) \<and>
    createWalletOnChain api env ''base'' b32 s2 = (r2, s3) \<longrightarrow>
      create_wallet_all api env (Some dest) s =
        (Text (join_lines ([''AVALANCHE: '' @ template a] @ wallet_line ''arbitrum'' r1 @ wallet_line ''base'' r2)),
         s3))"
proof (intro conjI impI)
  assume "dest \<noteq> [] \<and> createAvalancheTransferWallet api env dest s = (Inl e, s1)"
  then show "create_wallet_all api env (Some dest) s =
        (Json 500 ''Failed to create Avalanche transfer wallet'', s1)"
    by (simp add: create_wallet_all_def)
next
  assume h: "dest \<noteq> [] \<and> createAvalancheTransferWallet api env dest s = (Inr a, s1) \<and>
    zeroPadValue api a = Inr b32 \<and>
    createWalletOnChain api env ''arbitrum'' b32 s1 = (r1, s2) \<and>
    createWalletOnChain api env ''base'' b32 s2 = (r2, s3)"
  then have a1: "createWalletOnChain api env ''arbitrum'' b32 s1 = (r1, s2)"
    and a2: "createWalletOnChain api env ''base'' b32 s2 = (r2, s3)"
    by blast+
  have "burn_wallets api env b32 [''arbitrum'', ''base''] [''AVALANCHE: '' @ template a] s1 =
               ([''AVALANCHE: '' @ template a] @ wallet_line ''arbitrum'' r1 @ wallet_line ''base'' r2, s3)"
    by (rule burn_wallets_two [OF a1 a2])
  with h show "create_wallet_all api env (Some dest) s =
        (Text (join_lines ([''AVALANCHE: '' @ template a] @ wallet_line ''arbitrum'' r1 @ wallet_line ''base'' r2)),
         s3)"
    by (simp add: create_wallet_all_def)
qed


text \<open>
  The theorem on the small chain: with the Avalanche endpoint down the batch fails and
  nothing is submitted; with the Arbitrum endpoint down the answer holds the Avalanche and
  Base wallets and no Arbitrum line.
\<close>

theorem create_wallet_all_isolation_witness:
  "create_wallet_all avalanche_down testnet (Some ''0xAlice'') (fresh quiet) =
     (Json 500 ''Failed to create Avalanche transfer wallet'', snd failed_transfer) \<and>
   submissions (effects (snd failed_transfer)) = 0 \<and>
   fst batch_arbitrum = Inl ''failed to detect network'' \<and>
   create_wallet_all arbitrum_down testnet (Some ''0xAlice'') (fresh quiet) =
     (Text (''AVALANCHE: 0xW1'' @ [CHR 0x0A] @ ''BASE: 0xW2''), snd batch_base)"
proof -
  note t = create_wallet_all_isolation [where s = "fresh quiet" and dest = "''0xAlice''" and env = testnet]
  have f: "fst failed_transfer = Inl ''failed to detect network''"
    and f0: "submissions (effects (snd failed_transfer)) = 0"
    by code_simp+
  from f have ft: "createAvalancheTransferWallet avalanche_down testnet ''0xAlice'' (fresh quiet) =
      (Inl ''failed to detect network'', snd failed_transfer)"
    by (simp add: failed_transfer_def prod_eq_iff)
  have 1: "create_wallet_all avalanche_down testnet (Some ''0xAlice'') (fresh quiet) =
     (Json 500 ''Failed to create Avalanche transfer wallet'', snd failed_transfer)"
    using t [where api = avalanche_down and e = "''failed to detect network''" and ?s1.0 = "snd failed_transfer",
        THEN conjunct1, rule_format] ft
    by simp
  have b: "fst batch_transfer = Inr (Some ''0xW1'')"
    and ba: "fst batch_arbitrum = Inl ''failed to detect network''"
    and bb: "fst batch_base = Inr (Some ''0xW2'')"
    by code_simp+
  from b have bt: "createAvalancheTransferWallet arbitrum_down testnet ''0xAlice'' (fresh quiet) =
      (Inr (Some ''0xW1''), snd batch_transfer)"
    by (simp add: batch_transfer_def prod_eq_iff)
  have z: "zeroPadValue arbitrum_down (Some ''0xW1'') = Inr ''0x000000000000000000000000W1''"
    by (simp add: arbitrum_down_def sim_api_def sim_zeroPadValue_def)
  from ba have c1: "createWalletOnChain arbitrum_down testnet ''arbitrum'' ''0x000000000000000000000000W1''
      (snd batch_transfer) = (Inl ''failed to detect network'', snd batch_arbitrum)"
    by (simp add: batch_arbitrum_def prod_eq_iff)
  from bb have c2: "createWalletOnChain arbitrum_down testnet ''base'' ''0x000000000000000000000000W1''
      (snd batch_arbitrum) = (Inr (Some ''0xW2''), snd batch_base)"
    by (simp add: batch_base_def prod_eq_iff)
  have 2: "create_wallet_all arbitrum_down testnet (Some ''0xAlice'') (fresh quiet) =
     (Text (''AVALANCHE: 0xW1'' @ [CHR 0x0A] @ ''BASE: 0xW2''), snd batch_base)"
    using t [where api = arbitrum_down and a = "Some ''0xW1''" and ?s1.0 = "snd batch_transfer"
        and ?b32.0 = "''0x000000000000000000000000W1''"
        and ?r1.0 = "Inl ''failed to detect network''" and ?s2.0 = "snd batch_arbitrum"
        and ?r2.0 = "Inr (Some ''0xW2'')" and ?s3.0 = "snd batch_base",
        THEN conjunct2, rule_format] bt z c1 c2
    by (simp add: wallet_line_def template_def chain_names)
  from 1 f0 ba 2 show ?thesis by blast
qed

section \<open>Properties of the amount conversion\<close>

lemma str_includes_char: "str_includes str [c] \<longleftrightarrow> c \<in> set str"
  by (induction str) auto

lemma digit_facts:
  assumes "is_digit c"
  shows "c \<noteq> CHR ''.''" "c \<noteq> CHR ''-''" "c \<noteq> CHR ''+''" "\<not> is_space c"
    "c \<noteq> CHR ''x''" "c \<noteq> CHR ''X''" "c \<noteq> CHR ''o''" "c \<noteq> CHR ''O''" "c \<noteq> CHR ''b''" "c \<noteq> CHR ''B''"
    "digit_in_base 10 c = Some (of_char c - 48)"
  using assms by (auto simp: is_digit_def is_space_def digit_in_base_def Let_def)

lemma digits_in_base_10:
  "\<forall>c \<in> set ds. is_digit c \<Longrightarrow>
   digits_in_base 10 acc ds = Some (foldl (\<lambda>n c. 10 * n + (of_char c - 48)) acc ds)"
  by (induction ds arbitrary: acc) (simp_all add: digit_facts)

lemma trim_digits:
  assumes "ds \<noteq> []" "\<forall>c \<in> set ds. is_digit c"
  shows "trim ds = ds"
proof -
  from assms obtain c cs where ds: "ds = c # cs" by (cases ds) auto
  with assms have "\<not> is_space c" by (simp add: digit_facts)
  then have 1: "dropWhile is_space ds = ds" by (simp add: ds)
  from assms have "rev ds \<noteq> []" "\<forall>c \<in> set (rev ds). is_digit c" by simp_all
  then obtain d dr where r: "rev ds = d # dr" and "is_digit d" by (cases "rev ds") auto
  then have "dropWhile is_space (rev ds) = rev ds" by (simp add: digit_facts)
  with 1 show ?thesis by (simp add: trim_def)
qed

lemma BigInt_of_digits:
  assumes "ds \<noteq> []" "\<forall>c \<in> set ds. is_digit c"
  shows "BigInt_of_string ds = Inr (int_of_digits ds)"
proof -
  from assms obtain c cs where ds: "ds = c # cs" and c: "is_digit c" by (cases ds) auto
  have s: "signed ds = (False, ds)"
    using c by (simp add: signed_def ds digit_facts)
  have p: "take 2 ds \<noteq> ''0x''" "take 2 ds \<noteq> ''0X''" "take 2 ds \<noteq> ''0o''" "take 2 ds \<noteq> ''0O''"
    "take 2 ds \<noteq> ''0b''" "take 2 ds \<noteq> ''0B''"
    using assms(2) by (cases cs; auto simp: ds digit_facts numeral_2_eq_2)+
  show ?thesis
    using assms(1) by (simp add: BigInt_of_string_def trim_digits [OF assms] p s integer_literal_def
        digits_in_base_10 [OF assms(2)] int_of_digits_def)
qed

text \<open>
  The integer half of claim C4 holds: for a non-empty string of decimal digits both
  handlers convert to the integer the digits denote (the transfer handler then refuses
  zero).
\<close>

lemma integer_string_amount:
  assumes "ds \<noteq> []" "\<forall>c \<in> set ds. is_digit c"
  shows "test_burn_amount ds = Inr (int_of_digits ds)"
    and "transfer_amount ds =
           (if int_of_digits ds \<le> 0 then Inl ''Amount must be greater than 0'' else Inr (int_of_digits ds))"
proof -
  have "CHR ''.'' \<notin> set ds" using assms(2) digit_facts(1) by blast
  then have n: "\<not> str_includes ds ''.''" by (simp add: str_includes_char)
  show "test_burn_amount ds = Inr (int_of_digits ds)"
    by (simp only: test_burn_amount_def n if_False BigInt_of_digits [OF assms])
  show "transfer_amount ds =
           (if int_of_digits ds \<le> 0 then Inl ''Amount must be greater than 0'' else Inr (int_of_digits ds))"
    by (simp only: transfer_amount_def n if_False BigInt_of_digits [OF assms] sum.case)
qed


text \<open>
  The rounding is what it is meant to be: \<open>ilog2\<close> is the integer binary logarithm, and a
  finite \<open>to_double x\<close> is a multiple \<open>m * 2^e\<close> with \<open>m \<le> 2^53\<close> and \<open>-1074 \<le> e \<le> 971\<close>
  that is within half a unit of the last place of \<open>x\<close>.
\<close>

lemma round_half_even_nearest: "\<bar>of_int (round_half_even y) - y\<bar> \<le> 1 / 2"
proof -
  define f where "f = \<lfloor>y\<rfloor>"
  have 1: "of_int f \<le> y" and 2: "y < of_int f + 1"
    unfolding f_def by linarith+
  show ?thesis
    unfolding round_half_even_def Let_def f_def [symmetric]
    using 1 2 by (auto simp: abs_if)
qed

lemma pow2_pos: "0 < pow2 e"
  by (simp add: pow2_def)

lemma pow2_Suc: "pow2 (e + 1) = 2 * pow2 e"
proof (cases "0 \<le> e")
  case True
  then show ?thesis by (simp add: pow2_def nat_add_distrib)
next
  case False
  then have "nat (- e) = Suc (nat (- (e + 1)))" by simp
  with False show ?thesis by (auto simp: pow2_def)
qed

lemma pow2_powi: "pow2 e = 2 powi e"
  by (simp add: pow2_def power_int_def field_simps)

lemma pow2_diff: "pow2 (a - b) = pow2 a / pow2 b"
  by (simp add: pow2_powi power_int_diff)

lemma pow2_nat: "0 \<le> a \<Longrightarrow> pow2 a = 2 ^ nat a"
  by (simp add: pow2_def)

lemma ilog2_bounds:
  assumes "0 < x"
  shows "pow2 (ilog2 x) \<le> x \<and> x < pow2 (ilog2 x + 1)"
proof -
  obtain p q where pq: "quotient_of x = (p, q)" by (cases "quotient_of x")
  then have q: "0 < q" and x: "x = of_int p / of_int q"
    using quotient_of_denom_pos quotient_of_div by auto
  with assms have p: "0 < p" by (simp add: zero_less_divide_iff)
  define d where "d = bitlen p - bitlen q"
  have bp: "2 ^ nat (bitlen p - 1) \<le> p" "p < 2 ^ nat (bitlen p)"
    using bitlen_bounds [OF p] by auto
  have bq: "2 ^ nat (bitlen q - 1) \<le> q" "q < 2 ^ nat (bitlen q)"
    using bitlen_bounds [OF q] by auto
  have "floorlog 2 (nat p) \<noteq> 0" "floorlog 2 (nat q) \<noteq> 0"
    using p q by (simp_all add: floorlog_eq_zero_iff)
  then have bl: "0 < bitlen p" "0 < bitlen q" by (simp_all add: bitlen_def)
  have rp: "(2::rat) ^ nat (bitlen p - 1) \<le> of_int p" "of_int p < (2::rat) ^ nat (bitlen p)"
    using bp by (metis of_int_le_iff of_int_numeral of_int_power, metis of_int_less_iff of_int_numeral of_int_power)
  have rq: "(2::rat) ^ nat (bitlen q - 1) \<le> of_int q" "of_int q < (2::rat) ^ nat (bitlen q)"
    using bq by (metis of_int_le_iff of_int_numeral of_int_power, metis of_int_less_iff of_int_numeral of_int_power)
  have "pow2 (d - 1) = pow2 ((bitlen p - 1) - bitlen q)" by (simp add: d_def algebra_simps)
  also have "\<dots> = pow2 (bitlen p - 1) / pow2 (bitlen q)" by (rule pow2_diff)
  also have "\<dots> = 2 ^ nat (bitlen p - 1) / 2 ^ nat (bitlen q)"
    using bl by (simp add: pow2_nat)
  also have "\<dots> \<le> of_int p / of_int q"
    using rp rq q p by (intro frac_le) simp_all
  finally have lo: "pow2 (d - 1) \<le> x" by (simp add: x)
  have "x = of_int p / of_int q" by (rule x)
  also have "\<dots> < 2 ^ nat (bitlen p) / 2 ^ nat (bitlen q - 1)"
    using rp rq p q by (intro frac_less) simp_all
  also have "\<dots> = pow2 (bitlen p) / pow2 (bitlen q - 1)"
    using bl by (simp add: pow2_nat)
  also have "\<dots> = pow2 (bitlen p - (bitlen q - 1))" by (rule pow2_diff [symmetric])
  also have "\<dots> = pow2 (d + 1)" by (simp add: d_def algebra_simps)
  finally have hi: "x < pow2 (d + 1)" .
  have step: "pow2 d = 2 * pow2 (d - 1)" using pow2_Suc [of "d - 1"] by simp
  show ?thesis
  proof (cases "pow2 d \<le> x")
    case True
    with hi show ?thesis by (simp add: ilog2_def pq d_def [symmetric] Let_def)
  next
    case False
    with lo show ?thesis by (simp add: ilog2_def pq d_def [symmetric] Let_def not_le)
  qed
qed


lemma round_half_even_bounds: "\<lfloor>y\<rfloor> \<le> round_half_even y" "round_half_even y \<le> \<lfloor>y\<rfloor> + 1"
  by (simp_all add: round_half_even_def Let_def)

lemma to_double_nearest:
  assumes "to_double x = Finite v" "x \<noteq> 0"
  shows "\<exists>m e. \<bar>v\<bar> = of_int m * pow2 e \<and> 0 \<le> m \<and> m \<le> 2 ^ 53 \<and> - 1074 \<le> e \<and> e \<le> 971 \<and>
               \<bar>\<bar>v\<bar> - \<bar>x\<bar>\<bar> \<le> pow2 e / 2 \<and> (v < 0 \<longrightarrow> x < 0) \<and> (0 < v \<longrightarrow> 0 < x)"
proof -
  define a where "a = \<bar>x\<bar>"
  define e where "e = max (ilog2 a - 52) (- 1074)"
  define m where "m = round_half_even (a / pow2 e)"
  have a: "0 < a" using assms(2) by (simp add: a_def)
  have fin: "\<not> (971 < e \<or> (e = 971 \<and> 2 ^ 53 \<le> m))"
    and v: "v = (if x < 0 then - (of_int m * pow2 e) else of_int m * pow2 e)"
    using assms unfolding to_double_def Let_def a_def [symmetric] e_def [symmetric] m_def [symmetric]
    by (auto split: if_splits)
  have y0: "0 \<le> a / pow2 e" using a pow2_pos [of e] by simp
  then have m0: "0 \<le> m"
    using round_half_even_bounds(1) [of "a / pow2 e"] by (simp add: m_def) linarith
  have near: "\<bar>of_int m - a / pow2 e\<bar> \<le> 1 / 2"
    unfolding m_def by (rule round_half_even_nearest)
  have "of_int m * pow2 e - a = (of_int m - a / pow2 e) * pow2 e"
    using pow2_pos [of e] by (simp add: left_diff_distrib)
  then have "\<bar>of_int m * pow2 e - a\<bar> = \<bar>of_int m - a / pow2 e\<bar> * \<bar>pow2 e\<bar>"
    by (simp only: abs_mult)
  also have "\<dots> = \<bar>of_int m - a / pow2 e\<bar> * pow2 e"
    using pow2_pos [of e] by simp
  also have "\<dots> \<le> 1 / 2 * pow2 e"
    using near pow2_pos [of e] by (intro mult_right_mono) simp_all
  finally have err: "\<bar>of_int m * pow2 e - a\<bar> \<le> pow2 e / 2" by simp
  have "a < pow2 (ilog2 a + 1)" using ilog2_bounds [OF a] by simp
  also have "pow2 (ilog2 a + 1) \<le> pow2 (e + 53)"
    by (simp add: pow2_powi e_def power_int_increasing)
  also have "pow2 (e + 53) = pow2 e * 2 ^ 53"
    by (simp add: pow2_powi power_int_add)
  finally have "a / pow2 e < 2 ^ 53" using pow2_pos [of e] by (simp add: field_simps)
  then have "\<lfloor>a / pow2 e\<rfloor> < 2 ^ 53" by (simp add: floor_less_iff)
  then have m53: "m \<le> 2 ^ 53"
    using round_half_even_bounds(2) [of "a / pow2 e"] unfolding m_def by linarith
  have nonneg: "0 \<le> of_int m * pow2 e" using m0 pow2_pos [of e] by simp
  have av: "\<bar>v\<bar> = of_int m * pow2 e" using v nonneg by (auto simp: abs_if)
  have e1: "- 1074 \<le> e" by (simp add: e_def)
  have e2: "e \<le> 971" using fin by auto
  have sg: "(v < 0 \<longrightarrow> x < 0) \<and> (0 < v \<longrightarrow> 0 < x)"
    using v nonneg assms(2) by (auto split: if_splits)
  have err': "\<bar>\<bar>v\<bar> - \<bar>x\<bar>\<bar> \<le> pow2 e / 2"
    using err by (simp only: av a_def)
  show ?thesis
    by (intro exI [of _ m] exI [of _ e] conjI av m0 m53 e1 e2 err' sg [THEN conjunct1] sg [THEN conjunct2])
qed

text \<open>
  Claim C4 at the amount \<^verbatim>\<open>1.001\<close>. The Number nearest to 1.001 is below it, and so is the
  rounded product with 1000000: both handlers convert to 1000999, while
  \<open>floor (1.001 * 10^6)\<close> is 1001000.
\<close>

theorem decimal_amount_conversion_loses_a_unit:
  "transfer_amount ''1.001'' = Inr 1000999 \<and> test_burn_amount ''1.001'' = Inr 1000999 \<and>
   exact_units ''1.001'' = 1001000"
  by code_simp

end
